theory Spec2Isabelle
  imports Main "HOL-Library.Char_ord" "HOL-Library.List_Lexorder"
begin

section \<open>Data model\<close>

text \<open>
  The channel component of \<^verbatim>\<open>src/components/Channel/Channel.js\<close> keeps its view state in
  React state cells and reads the canonical channel state from the client library's
  \<^verbatim>\<open>channel.state\<close> object. Both are records here; every handler is a function from the
  state it reads to the state it leaves, together with the backend calls it made and the
  way its promise settled.
\<close>

datatype status = Sending | Received | Failed

datatype error = BackendError string | TypeError string

record user =
  user_id :: string
  user_name :: string
  user_image :: string

record message =
  msg_id :: string
  msg_text :: string
  html :: string
  dunder_html :: string
  msg_type :: string
  status :: status
  msg_user :: "user option"
  created_at :: nat
  attachments :: "string list"
  mentioned_users :: "string list"
  reactions :: "string list"
  parent_id :: "string option"
  show_in_channel :: bool

text \<open>The object literal \<^verbatim>\<open>messageData\<close> that \<^verbatim>\<open>doSendMessage\<close> hands to the backend.\<close>

record message_data =
  md_text :: string
  md_attachments :: "string list"
  md_mentioned_users :: "string list"
  md_id :: string
  md_parent_id :: "string option"

text \<open>\<^verbatim>\<open>channel.state\<close>: the canonical store held by the client library.\<close>

record channel_state =
  state_messages :: "message list"
  state_threads :: "string \<rightharpoonup> message list"
  state_watchers :: "string \<rightharpoonup> user"
  state_read :: "string \<rightharpoonup> nat \<times> user"
  state_typing :: "string \<rightharpoonup> string"
  state_members :: "string \<rightharpoonup> user"
  state_watcher_count :: nat

text \<open>The \<^verbatim>\<open>useState\<close> cells of \<^verbatim>\<open>ChannelInner\<close>.\<close>

record view_state =
  error :: "error option"
  loading :: bool
  loadingMore :: bool
  hasMore :: bool
  messages :: "message list"
  typing :: "string \<rightharpoonup> string"
  members :: "string \<rightharpoonup> user"
  watchers :: "string \<rightharpoonup> user"
  watcherCount :: nat
  read :: "string \<rightharpoonup> nat \<times> user"
  thread :: "message option"
  threadMessages :: "message list"
  threadLoadingMore :: bool
  threadHasMore :: bool

text \<open>
  What a handler did besides updating state: the backend requests it issued and the
  throttled routines it invoked, in order.
\<close>

datatype effect =
    Query int "string option"
  | GetReplies string int "string option"
  | SendMessage message_data
  | DoSendMessageRequest string message_data
  | MarkRead
  | MarkReadThrottled
  | ThrottledCopyStateFromChannel
  | ConsoleWarn error

text \<open>How the promise of an \<^verbatim>\<open>async\<close> handler settles (or how a plain handler returns).\<close>

datatype outcome = Resolved | Rejected error

record step =
  view :: view_state
  store :: channel_state
  trace :: "effect list"
  outcome :: outcome

text \<open>
  The answers of the backend. \<^verbatim>\<open>channel.query\<close> and \<^verbatim>\<open>channel.getReplies\<close> either throw
  or return a page and leave the store updated; \<^verbatim>\<open>channel.sendMessage\<close> (or the injected
  \<^verbatim>\<open>doSendMessageRequest\<close>) either throws or returns a response that may carry a message.
\<close>

record backend =
  query :: "channel_state \<Rightarrow> int \<Rightarrow> string option \<Rightarrow> error + message list \<times> channel_state"
  getReplies :: "channel_state \<Rightarrow> string \<Rightarrow> int \<Rightarrow> string option
                   \<Rightarrow> error + message list \<times> channel_state"
  sendMessageRequest :: "message_data \<Rightarrow> error + message option"
  doSendMessageRequest :: "(string \<Rightarrow> message_data \<Rightarrow> error + message option) option"

section \<open>JavaScript idioms\<close>

text \<open>A string is truthy unless it is undefined or empty.\<close>

fun truthy :: "string option \<Rightarrow> bool" where
  "truthy None = False"
| "truthy (Some s) = (s \<noteq> [])"

text \<open>\<^verbatim>\<open>x || null\<close> on an optional string.\<close>

fun or_null :: "string option \<Rightarrow> string option" where
  "or_null None = None"
| "or_null (Some s) = (if s = [] then None else Some s)"

text \<open>\<^verbatim>\<open>channel.state.threads[key] || []\<close>: an absent key (or an undefined one) reads as no replies.\<close>

definition thread_replies :: "channel_state \<Rightarrow> string option \<Rightarrow> message list" where
  "thread_replies cs key =
     (case key of
        None \<Rightarrow> []
      | Some k \<Rightarrow> (case state_threads cs k of None \<Rightarrow> [] | Some ms \<Rightarrow> ms))"

section \<open>The store operations of the client library\<close>

text \<open>
  Modelled from the spec: \<^verbatim>\<open>channel.state.addMessageSorted\<close>, \<^verbatim>\<open>channel.state.removeMessage\<close> and
  \<^verbatim>\<open>channel.state.filterErrorMessages\<close> live in the client library, whose source is not part of
  the repository; the component only calls them. The spec (section 4.1) gives their contract:
  \<^emph>\<open>addOrReplace\<close> inserts a message keeping the order by creation time with ties broken by
  identifier, and replaces in place a message with the same identifier; \<^emph>\<open>remove\<close> deletes by
  identifier from the main sequence and from any thread sequence that contains it;
  \<^emph>\<open>filterFailed\<close> discards every message currently in failed status. The comment at the call
  in \<^verbatim>\<open>updateMessage\<close> adds that a message is added to the main channel state as well as to
  its reply thread.
\<close>

definition before :: "message \<Rightarrow> message \<Rightarrow> bool" where
  "before a b \<longleftrightarrow>
     created_at a < created_at b \<or> (created_at a = created_at b \<and> msg_id a \<le> msg_id b)"

fun insert_sorted :: "message \<Rightarrow> message list \<Rightarrow> message list" where
  "insert_sorted m [] = [m]"
| "insert_sorted m (x # xs) = (if before m x then m # x # xs else x # insert_sorted m xs)"

definition has_id :: "string \<Rightarrow> message list \<Rightarrow> bool" where
  "has_id i ms = list_ex (\<lambda>x. msg_id x = i) ms"

definition addToMessageList :: "message list \<Rightarrow> message \<Rightarrow> message list" where
  "addToMessageList ms m =
     (if has_id (msg_id m) ms
      then map (\<lambda>x. if msg_id x = msg_id m then m else x) ms
      else insert_sorted m ms)"

definition addMessageSorted :: "channel_state \<Rightarrow> message \<Rightarrow> channel_state" where
  "addMessageSorted cs m =
     (let cs1 = cs\<lparr>state_messages := addToMessageList (state_messages cs) m\<rparr>
      in case parent_id m of
           None \<Rightarrow> cs1
         | Some p \<Rightarrow>
             cs1\<lparr>state_threads :=
                   (state_threads cs)(p \<mapsto> addToMessageList (thread_replies cs (Some p)) m)\<rparr>)"

definition removeMessage_state :: "channel_state \<Rightarrow> message \<Rightarrow> channel_state" where
  "removeMessage_state cs m =
     cs\<lparr>state_messages := filter (\<lambda>x. msg_id x \<noteq> msg_id m) (state_messages cs),
        state_threads := (\<lambda>k. map_option (filter (\<lambda>x. msg_id x \<noteq> msg_id m)) (state_threads cs k))\<rparr>"

definition filterErrorMessages :: "channel_state \<Rightarrow> channel_state" where
  "filterErrorMessages cs =
     cs\<lparr>state_messages := filter (\<lambda>x. status x \<noteq> Failed) (state_messages cs),
        state_threads := (\<lambda>k. map_option (filter (\<lambda>x. status x \<noteq> Failed)) (state_threads cs k))\<rparr>"

section \<open>Pagination\<close>

text \<open>
  The debounced completion \<^verbatim>\<open>loadMoreFinished\<close>: its body, applied to the current view
  state. The debounce window (2000 ms, leading and trailing edge) only decides when the
  body runs, not what it writes.
\<close>

definition loadMoreFinished :: "bool \<Rightarrow> message list \<Rightarrow> view_state \<Rightarrow> view_state" where
  "loadMoreFinished hasMoreMessages newMessages vs =
     vs\<lparr>loadingMore := False, hasMore := hasMoreMessages, messages := newMessages\<rparr>"

text \<open>\<^verbatim>\<open>messages[0]\<close>, undefined on the empty array.\<close>

fun oldest :: "message list \<Rightarrow> message option" where
  "oldest [] = None"
| "oldest (m # ms) = Some m"

text \<open>
  \<^verbatim>\<open>loadMore(limit = 100)\<close>. The guard \<^verbatim>\<open>oldestMessage?.status !== 'received'\<close> is true for an
  empty sequence, where \<^verbatim>\<open>oldestMessage\<close> is undefined.
\<close>

definition loadMore :: "backend \<Rightarrow> int option \<Rightarrow> view_state \<Rightarrow> channel_state \<Rightarrow> step" where
  "loadMore be limit vs cs =
     (let oldestMessage = oldest (messages vs) in
      if loadingMore vs \<or> map_option status oldestMessage \<noteq> Some Received
      then \<lparr>view = vs, store = cs, trace = [], outcome = Resolved\<rparr>
      else
        let vs1 = vs\<lparr>loadingMore := True\<rparr>;
            oldestID = or_null (map_option msg_id oldestMessage);
            perPage = (case limit of None \<Rightarrow> 100 | Some l \<Rightarrow> l)
        in case query be cs perPage oldestID of
             Inl e \<Rightarrow>
               \<lparr>view = vs1\<lparr>loadingMore := False\<rparr>, store = cs,
                trace = [Query perPage oldestID, ConsoleWarn e], outcome = Resolved\<rparr>
           | Inr (page, cs') \<Rightarrow>
               let hasMoreMessages = (int (length page) = perPage)
               in \<lparr>view = loadMoreFinished hasMoreMessages (state_messages cs') vs1, store = cs',
                   trace = [Query perPage oldestID], outcome = Resolved\<rparr>)"

definition loadMoreThreadFinished :: "bool \<Rightarrow> message list \<Rightarrow> view_state \<Rightarrow> view_state" where
  "loadMoreThreadFinished threadHasMoreMessages newThreadMessages vs =
     vs\<lparr>threadHasMore := threadHasMoreMessages, threadMessages := newThreadMessages,
        threadLoadingMore := False\<rparr>"

text \<open>
  \<^verbatim>\<open>loadMoreThread()\<close>. The \<^verbatim>\<open>await channel.getReplies(...)\<close> is not inside a \<^verbatim>\<open>try\<close>: when it
  throws, the handler's promise rejects and nothing after the \<^verbatim>\<open>await\<close> runs.
\<close>

definition loadMoreThread :: "backend \<Rightarrow> view_state \<Rightarrow> channel_state \<Rightarrow> step" where
  "loadMoreThread be vs cs =
     (case thread vs of
        None \<Rightarrow> \<lparr>view = vs, store = cs, trace = [], outcome = Resolved\<rparr>
      | Some root \<Rightarrow>
          if threadLoadingMore vs
          then \<lparr>view = vs, store = cs, trace = [], outcome = Resolved\<rparr>
          else
            let vs1 = vs\<lparr>threadLoadingMore := True\<rparr>;
                parentID = msg_id root;
                oldMessages = thread_replies cs (Some parentID);
                oldestMessageID = map_option msg_id (oldest oldMessages);
                limit = 50
            in (case getReplies be cs parentID limit oldestMessageID of
                  Inl e \<Rightarrow>
                    \<lparr>view = vs1, store = cs,
                     trace = [GetReplies parentID limit oldestMessageID], outcome = Rejected e\<rparr>
                | Inr (page, cs') \<Rightarrow>
                    let threadHasMoreMessages = (int (length page) = limit);
                        newThreadMessages = thread_replies cs' (Some parentID)
                    in \<lparr>view = loadMoreThreadFinished threadHasMoreMessages newThreadMessages vs1,
                        store = cs', trace = [GetReplies parentID limit oldestMessageID],
                        outcome = Resolved\<rparr>))"

section \<open>Message actions\<close>

text \<open>The non-state properties of the channel handle and of the chat client.\<close>

record channel =
  cid :: string
  disconnected :: bool
  read_events :: bool

record client =
  userID :: string
  client_user :: "user option"

text \<open>
  \<^verbatim>\<open>updateMessage(updatedMessage)\<close>: adds the message to the store, then copies the store into
  the view. The thread replies are re-read under the key \<^verbatim>\<open>updatedMessage.parent_id\<close> whenever
  a thread is open and that key is truthy.
\<close>

definition updateMessage :: "message \<Rightarrow> view_state \<Rightarrow> channel_state \<Rightarrow> view_state \<times> channel_state" where
  "updateMessage updatedMessage vs cs =
     (let cs' = addMessageSorted cs updatedMessage;
          vs1 = (if thread vs \<noteq> None \<and> truthy (parent_id updatedMessage)
                 then vs\<lparr>threadMessages := thread_replies cs' (parent_id updatedMessage)\<rparr>
                 else vs)
      in (vs1\<lparr>messages := state_messages cs'\<rparr>, cs'))"

definition messageData_of :: "message \<Rightarrow> message_data" where
  "messageData_of m =
     \<lparr>md_text = msg_text m, md_attachments = attachments m,
      md_mentioned_users = mentioned_users m, md_id = msg_id m, md_parent_id = parent_id m\<rparr>"

text \<open>
  The request of \<^verbatim>\<open>doSendMessage\<close>: through the injected \<^verbatim>\<open>doSendMessageRequest\<close> when the
  prop is given, through \<^verbatim>\<open>channel.sendMessage\<close> otherwise. The pair is the call made and
  its answer: an exception, or a response that may carry a message.
\<close>

definition sendRequest :: "backend \<Rightarrow> channel \<Rightarrow> message_data \<Rightarrow> effect \<times> (error + message option)" where
  "sendRequest be ch messageData =
     (case doSendMessageRequest be of
        Some f \<Rightarrow> (DoSendMessageRequest (cid ch) messageData, f (cid ch) messageData)
      | None \<Rightarrow> (SendMessage messageData, sendMessageRequest be messageData))"

text \<open>
  \<^verbatim>\<open>doSendMessage(message)\<close>. A response without a message (or no response) changes
  nothing; an exception is caught and the message is written back with status failed.
\<close>

definition doSendMessage :: "backend \<Rightarrow> channel \<Rightarrow> message \<Rightarrow> view_state \<Rightarrow> channel_state \<Rightarrow> step" where
  "doSendMessage be ch m vs cs =
     (let request = sendRequest be ch (messageData_of m)
      in case snd request of
           Inr messageResponse \<Rightarrow>
             (case messageResponse of
                Some rm \<Rightarrow>
                  (let r = updateMessage (rm\<lparr>status := Received\<rparr>) vs cs
                   in \<lparr>view = fst r, store = snd r, trace = [fst request], outcome = Resolved\<rparr>)
              | None \<Rightarrow> \<lparr>view = vs, store = cs, trace = [fst request], outcome = Resolved\<rparr>)
         | Inl e \<Rightarrow>
             (let r = updateMessage (m\<lparr>status := Failed\<rparr>) vs cs
              in \<lparr>view = fst r, store = snd r, trace = [fst request], outcome = Resolved\<rparr>))"

text \<open>
  \<^verbatim>\<open>createMessagePreview(text, attachments, parent, mentioned_users)\<close>. The fresh part of the
  identifier (\<^verbatim>\<open>uuidv4()\<close>) and the clock (\<^verbatim>\<open>new Date()\<close>) are arguments.
\<close>

definition createMessagePreview ::
  "client \<Rightarrow> string \<Rightarrow> nat \<Rightarrow> string \<Rightarrow> string list \<Rightarrow> message option \<Rightarrow> string list \<Rightarrow> message" where
  "createMessagePreview cl uuid now txt atts parent mentioned =
     \<lparr>msg_id = userID cl @ ''-'' @ uuid, msg_text = txt, html = txt, dunder_html = txt,
      msg_type = ''regular'', status = Sending, msg_user = client_user cl, created_at = now,
      attachments = atts, mentioned_users = mentioned, reactions = [],
      parent_id = (case parent of
                     None \<Rightarrow> None
                   | Some p \<Rightarrow> if msg_id p \<noteq> [] then Some (msg_id p) else None),
      show_in_channel = False\<rparr>"

text \<open>The draft handed to \<^verbatim>\<open>sendMessage\<close>; absent attachments and mentions default to \<^verbatim>\<open>[]\<close>.\<close>

record draft =
  draft_text :: string
  draft_attachments :: "string list option"
  draft_mentioned_users :: "string list option"
  draft_parent :: "message option"

definition preview_of :: "client \<Rightarrow> string \<Rightarrow> nat \<Rightarrow> draft \<Rightarrow> message" where
  "preview_of cl uuid now d =
     createMessagePreview cl uuid now (draft_text d)
       (case draft_attachments d of None \<Rightarrow> [] | Some a \<Rightarrow> a) (draft_parent d)
       (case draft_mentioned_users d of None \<Rightarrow> [] | Some u \<Rightarrow> u)"

text \<open>
  \<^verbatim>\<open>sendMessage\<close> up to the point where the backend request is issued: the failed messages
  are filtered out of the store, the preview is built and added.
\<close>

definition sendMessage_preview ::
  "client \<Rightarrow> string \<Rightarrow> nat \<Rightarrow> draft \<Rightarrow> view_state \<Rightarrow> channel_state \<Rightarrow> view_state \<times> channel_state" where
  "sendMessage_preview cl uuid now d vs cs =
     updateMessage (preview_of cl uuid now d) vs (filterErrorMessages cs)"

definition sendMessage ::
  "backend \<Rightarrow> channel \<Rightarrow> client \<Rightarrow> string \<Rightarrow> nat \<Rightarrow> draft \<Rightarrow> view_state \<Rightarrow> channel_state \<Rightarrow> step" where
  "sendMessage be ch cl uuid now d vs cs =
     (let r = sendMessage_preview cl uuid now d vs cs
      in doSendMessage be ch (preview_of cl uuid now d) (fst r) (snd r))"

definition retrySendMessage ::
  "backend \<Rightarrow> channel \<Rightarrow> message \<Rightarrow> view_state \<Rightarrow> channel_state \<Rightarrow> step" where
  "retrySendMessage be ch m vs cs =
     (let r = updateMessage (m\<lparr>status := Sending\<rparr>) vs cs
      in doSendMessage be ch m (fst r) (snd r))"

text \<open>
  \<^verbatim>\<open>removeMessage(message)\<close>: the thread replies are re-read under the key
  \<^verbatim>\<open>message.parent_id\<close>, whether or not a thread is open.
\<close>

definition removeMessage :: "message \<Rightarrow> view_state \<Rightarrow> channel_state \<Rightarrow> view_state \<times> channel_state" where
  "removeMessage m vs cs =
     (let cs' = removeMessage_state cs m
      in (vs\<lparr>messages := state_messages cs', threadMessages := thread_replies cs' (parent_id m)\<rparr>, cs'))"

definition openThread :: "message \<Rightarrow> view_state \<Rightarrow> channel_state \<Rightarrow> view_state" where
  "openThread m vs cs = vs\<lparr>thread := Some m, threadMessages := thread_replies cs (Some (msg_id m))\<rparr>"

definition closeThread :: "view_state \<Rightarrow> view_state" where
  "closeThread vs = vs\<lparr>thread := None, threadMessages := []\<rparr>"

section \<open>Thread projection\<close>

text \<open>
  The effect on \<^verbatim>\<open>[thread, messages]\<close>: the loop \<^verbatim>\<open>for (i = messages.length - 1; i >= 0; i -= 1)\<close>
  with \<open>n = i + 1\<close> entries still to visit; it stops at the first match.
\<close>

fun scan_messages :: "message list \<Rightarrow> string \<Rightarrow> nat \<Rightarrow> message option" where
  "scan_messages ms tid 0 = None"
| "scan_messages ms tid (Suc i) =
     (if msg_id (ms ! i) = tid then Some (ms ! i) else scan_messages ms tid i)"

definition threadEffect :: "view_state \<Rightarrow> view_state" where
  "threadEffect vs =
     (case thread vs of
        None \<Rightarrow> vs
      | Some root \<Rightarrow>
          (case scan_messages (messages vs) (msg_id root) (length (messages vs)) of
             None \<Rightarrow> vs
           | Some m \<Rightarrow> vs\<lparr>thread := Some m\<rparr>))"

section \<open>Event handling\<close>

text \<open>
  The browser document and the two refs of the component (\<^verbatim>\<open>originalTitle\<close>, \<^verbatim>\<open>lastRead\<close>).
\<close>

record page =
  hidden :: bool
  title :: string
  originalTitle :: string
  lastRead :: nat

text \<open>A backend event: its type and the message it carries, if any.\<close>

record event =
  ev_type :: string
  ev_message :: "message option"

record event_step =
  ev_view :: view_state
  ev_page :: page
  ev_trace :: "effect list"
  ev_outcome :: outcome

text \<open>The template literal \<^verbatim>\<open>`${unread}`\<close>: a count printed in decimal.\<close>

fun show_nat :: "nat \<Rightarrow> string" where
  "show_nat n =
     (if n < 10 then [''0123456789'' ! n]
      else show_nat (n div 10) @ [''0123456789'' ! (n mod 10)])"

declare show_nat.simps [simp del]

text \<open>
  \<^verbatim>\<open>markRead()\<close>, the routine behind \<^verbatim>\<open>markReadThrottled\<close>; the clock is an argument.
\<close>

definition markRead :: "channel \<Rightarrow> nat \<Rightarrow> page \<Rightarrow> page \<times> effect list" where
  "markRead ch now pg =
     (if disconnected ch \<or> \<not> read_events ch then (pg, [])
      else
        (let pg1 = pg\<lparr>lastRead := now\<rparr>
         in (if originalTitle pg1 \<noteq> [] then pg1\<lparr>title := originalTitle pg1\<rparr> else pg1,
             [MarkRead])))"

text \<open>The body of \<^verbatim>\<open>throttledCopyStateFromChannel\<close>.\<close>

definition copyStateFromChannel :: "channel_state \<Rightarrow> view_state \<Rightarrow> view_state" where
  "copyStateFromChannel cs vs =
     vs\<lparr>messages := state_messages cs, watchers := state_watchers cs, read := state_read cs,
        typing := state_typing cs, watcherCount := state_watcher_count cs\<rparr>"

text \<open>
  \<^verbatim>\<open>handleEvent(e)\<close>. \<^verbatim>\<open>channel.countUnread\<close> and \<^verbatim>\<open>channel.state.messageToImmutable\<close> belong to
  the client library and are arguments. Reading \<^verbatim>\<open>e.message.parent_id\<close> or
  \<^verbatim>\<open>e.message.user.id\<close> of an undefined object throws; the handler has no \<^verbatim>\<open>try\<close>, so the
  throw ends it before \<^verbatim>\<open>throttledCopyStateFromChannel\<close> is invoked. \<open>refreshThread\<close> is
  the first statement of the handler, the \<^verbatim>\<open>if (thread) { ... }\<close> block.
\<close>

definition refreshThread :: "(message \<Rightarrow> message) \<Rightarrow> event \<Rightarrow> view_state \<Rightarrow> channel_state \<Rightarrow> view_state" where
  "refreshThread messageToImmutable e vs cs =
     (case thread vs of
        None \<Rightarrow> vs
      | Some root \<Rightarrow>
          (let vs' = vs\<lparr>threadMessages := thread_replies cs (Some (msg_id root))\<rparr>
           in if map_option msg_id (ev_message e) = Some (msg_id root)
              then vs'\<lparr>thread := map_option messageToImmutable (ev_message e)\<rparr>
              else vs'))"

definition handleEvent ::
  "client \<Rightarrow> (channel_state \<Rightarrow> nat \<Rightarrow> nat) \<Rightarrow> (message \<Rightarrow> message) \<Rightarrow> event
     \<Rightarrow> view_state \<Rightarrow> channel_state \<Rightarrow> page \<Rightarrow> event_step" where
  "handleEvent cl countUnread messageToImmutable e vs cs pg =
     (let vs1 = refreshThread messageToImmutable e vs cs
      in if ev_type e = ''message.new''
         then
           (case ev_message e of
              None \<Rightarrow>
                \<lparr>ev_view = vs1, ev_page = pg, ev_trace = [],
                 ev_outcome = Rejected (TypeError ''e.message is undefined'')\<rparr>
            | Some m \<Rightarrow>
                (let mainChannelUpdated = \<not> (truthy (parent_id m) \<and> \<not> show_in_channel m)
                 in if mainChannelUpdated
                    then
                      (case msg_user m of
                         None \<Rightarrow>
                           \<lparr>ev_view = vs1, ev_page = pg, ev_trace = [],
                            ev_outcome = Rejected (TypeError ''e.message.user is undefined'')\<rparr>
                       | Some u \<Rightarrow>
                           if user_id u \<noteq> userID cl
                           then
                             (if \<not> hidden pg
                              then \<lparr>ev_view = vs1, ev_page = pg,
                                    ev_trace = [MarkReadThrottled, ThrottledCopyStateFromChannel],
                                    ev_outcome = Resolved\<rparr>
                              else
                                (let unread = countUnread cs (lastRead pg)
                                 in \<lparr>ev_view = vs1,
                                     ev_page = pg\<lparr>title := ''('' @ show_nat unread @ '') '' @ originalTitle pg\<rparr>,
                                     ev_trace = [ThrottledCopyStateFromChannel],
                                     ev_outcome = Resolved\<rparr>))
                           else \<lparr>ev_view = vs1, ev_page = pg,
                                 ev_trace = [ThrottledCopyStateFromChannel], ev_outcome = Resolved\<rparr>)
                    else \<lparr>ev_view = vs1, ev_page = pg,
                          ev_trace = [ThrottledCopyStateFromChannel], ev_outcome = Resolved\<rparr>))
         else \<lparr>ev_view = vs1, ev_page = pg,
               ev_trace = [ThrottledCopyStateFromChannel], ev_outcome = Resolved\<rparr>)"

section \<open>The status of a team message\<close>

text \<open>
  \<^verbatim>\<open>MessageTeamStatus\<close> of \<^verbatim>\<open>src/components/Message/MessageTeam.tsx\<close>. What it renders is one
  of four things; the read-by indicator carries the reader whose avatar is shown and the
  number badge, when there is one.
\<close>

datatype team_status =
    RenderNothing
  | SendingIndicator
  | ReadByIndicator "user option" "nat option"
  | DeliveredIndicator

text \<open>
  \<^verbatim>\<open>readBy && client?.user && readBy.length === 1 && readBy[0] && readBy[0].id === client.user.id\<close>;
  the entries of \<^verbatim>\<open>readBy\<close> may be null.
\<close>

definition justReadByMe :: "user option list option \<Rightarrow> user option \<Rightarrow> bool" where
  "justReadByMe readBy clientUser =
     (case readBy of
        None \<Rightarrow> False
      | Some rb \<Rightarrow>
          (case clientUser of
             None \<Rightarrow> False
           | Some cu \<Rightarrow>
               length rb = 1 \<and>
               (case rb of
                  [] \<Rightarrow> False
                | r0 # rest \<Rightarrow> (case r0 of None \<Rightarrow> False | Some r \<Rightarrow> user_id r = user_id cu))))"

text \<open>\<^verbatim>\<open>readBy.filter(item => item && client?.user && item.id !== client.user.id)[0]\<close>\<close>

definition lastReadUser :: "user option list \<Rightarrow> user option \<Rightarrow> user option" where
  "lastReadUser rb clientUser =
     (case filter (\<lambda>item. case item of
                            None \<Rightarrow> False
                          | Some r \<Rightarrow> (case clientUser of
                                         None \<Rightarrow> False
                                       | Some cu \<Rightarrow> user_id r \<noteq> user_id cu)) rb of
        [] \<Rightarrow> None
      | item # rest \<Rightarrow> item)"

text \<open>The last check of the component: the delivered tick, or nothing.\<close>

definition deliveredStatus :: "message option \<Rightarrow> bool \<Rightarrow> string option \<Rightarrow> team_status" where
  "deliveredStatus msg_opt threadList lastReceivedId =
     (case msg_opt of
        None \<Rightarrow> RenderNothing
      | Some m \<Rightarrow>
          if status m = Received \<and> Some (msg_id m) = lastReceivedId \<and> \<not> threadList
          then DeliveredIndicator
          else RenderNothing)"

text \<open>
  The component. \<^verbatim>\<open>isMyMessage\<close> comes from the hook \<^verbatim>\<open>useUserRole\<close> and is an argument.
  The third branch is the read-status indicator: it needs a non-empty \<^verbatim>\<open>readBy\<close>, no thread
  list, and \<^verbatim>\<open>justReadByMe\<close> false.
\<close>

definition MessageTeamStatus ::
  "bool \<Rightarrow> message option \<Rightarrow> user option list option \<Rightarrow> bool \<Rightarrow> string option \<Rightarrow> user option
     \<Rightarrow> team_status" where
  "MessageTeamStatus isMyMessage msg_opt readBy threadList lastReceivedId clientUser =
     (if \<not> isMyMessage \<or> map_option msg_type msg_opt = Some ''error'' then RenderNothing
      else if map_option status msg_opt = Some Sending then SendingIndicator
      else
        (case readBy of
           None \<Rightarrow> deliveredStatus msg_opt threadList lastReceivedId
         | Some rb \<Rightarrow>
             if length rb \<noteq> 0 \<and> \<not> threadList \<and> \<not> justReadByMe readBy clientUser
             then ReadByIndicator (lastReadUser rb clientUser)
                    (if length rb - 1 > 1 then Some (length rb - 1) else None)
             else deliveredStatus msg_opt threadList lastReceivedId))"

section \<open>Observations and sample states\<close>

text \<open>A step fetched when its trace holds a page request.\<close>

fun is_fetch :: "effect \<Rightarrow> bool" where
  "is_fetch (Query l i) = True"
| "is_fetch (GetReplies p l i) = True"
| "is_fetch e = False"

definition fetched :: "step \<Rightarrow> bool" where
  "fetched r = list_ex is_fetch (trace r)"

definition msg :: "string \<Rightarrow> nat \<Rightarrow> status \<Rightarrow> string option \<Rightarrow> message" where
  "msg i t s p =
     \<lparr>msg_id = i, msg_text = ''hello'', html = ''hello'', dunder_html = ''hello'',
      msg_type = ''regular'', status = s, msg_user = None, created_at = t,
      attachments = [], mentioned_users = [], reactions = [], parent_id = p,
      show_in_channel = False\<rparr>"

definition empty_store :: channel_state where
  "empty_store =
     \<lparr>state_messages = [], state_threads = Map.empty, state_watchers = Map.empty,
      state_read = Map.empty, state_typing = Map.empty, state_members = Map.empty,
      state_watcher_count = 0\<rparr>"

definition initial_view :: view_state where
  "initial_view =
     \<lparr>error = None, loading = False, loadingMore = False, hasMore = False, messages = [],
      typing = Map.empty, members = Map.empty, watchers = Map.empty, watcherCount = 0,
      read = Map.empty, thread = None, threadMessages = [], threadLoadingMore = False,
      threadHasMore = False\<rparr>"

text \<open>A backend whose every request throws.\<close>

definition failing_backend :: backend where
  "failing_backend =
     \<lparr>query = (\<lambda>cs l i. Inl (BackendError ''offline'')),
      getReplies = (\<lambda>cs p l i. Inl (BackendError ''offline'')),
      sendMessageRequest = (\<lambda>d. Inl (BackendError ''offline'')),
      doSendMessageRequest = None\<rparr>"

text \<open>A backend that answers every page request with the given page and leaves the store as it is.\<close>

definition paging_backend :: "message list \<Rightarrow> backend" where
  "paging_backend pg =
     \<lparr>query = (\<lambda>cs l i. Inr (pg, cs)),
      getReplies = (\<lambda>cs p l i. Inr (pg, cs)),
      sendMessageRequest = (\<lambda>d. Inr None),
      doSendMessageRequest = None\<rparr>"

definition view_failed_edge :: view_state where
  "view_failed_edge = initial_view\<lparr>messages := [msg ''m2'' 2 Failed None]\<rparr>"

definition view_received_edge :: view_state where
  "view_received_edge = initial_view\<lparr>messages := [msg ''m1'' 1 Received None]\<rparr>"

definition view_thread_open :: view_state where
  "view_thread_open = initial_view\<lparr>thread := Some (msg ''m1'' 1 Received None)\<rparr>"

definition view_thread_edited :: view_state where
  "view_thread_edited =
     initial_view\<lparr>thread := Some (msg ''m1'' 1 Received None),
                  messages := [msg ''m0'' 0 Received None,
                               (msg ''m1'' 1 Received None)\<lparr>msg_text := ''edited''\<rparr>,
                               msg ''m2'' 2 Received None]\<rparr>"

definition view_thread_paged_out :: view_state where
  "view_thread_paged_out =
     initial_view\<lparr>thread := Some (msg ''m1'' 1 Received None),
                  messages := [msg ''m2'' 2 Received None, msg ''m3'' 3 Received None]\<rparr>"

definition sample_channel :: channel where
  "sample_channel = \<lparr>cid = ''messaging:general'', disconnected = False, read_events = True\<rparr>"

definition me :: user where
  "me = \<lparr>user_id = ''me'', user_name = ''Me'', user_image = ''me.png''\<rparr>"

definition other :: user where
  "other = \<lparr>user_id = ''other'', user_name = ''Other'', user_image = ''other.png''\<rparr>"

definition sample_client :: client where
  "sample_client = \<lparr>userID = ''me'', client_user = Some me\<rparr>"

definition sample_draft :: draft where
  "sample_draft =
     \<lparr>draft_text = ''hi'', draft_attachments = None, draft_mentioned_users = Some [''other''],
      draft_parent = None\<rparr>"

text \<open>A store holding a received message and a failed one.\<close>

definition store_with_failed :: channel_state where
  "store_with_failed =
     empty_store\<lparr>state_messages := [msg ''m1'' 1 Received None, msg ''m2'' 2 Failed None]\<rparr>"

text \<open>A store with two threads: \<open>r1\<close> answers \<open>m1\<close>, \<open>r9\<close> answers \<open>m9\<close>.\<close>

definition store_two_threads :: channel_state where
  "store_two_threads =
     empty_store\<lparr>state_messages := [msg ''m1'' 1 Received None, msg ''m9'' 9 Received None],
                  state_threads := [''m1'' \<mapsto> [msg ''r1'' 2 Received (Some ''m1'')],
                                    ''m9'' \<mapsto> [msg ''r9'' 10 Received (Some ''m9'')]]\<rparr>"

definition view_thread_m1 :: view_state where
  "view_thread_m1 =
     initial_view\<lparr>messages := [msg ''m1'' 1 Received None, msg ''m9'' 9 Received None],
                  thread := Some (msg ''m1'' 1 Received None),
                  threadMessages := [msg ''r1'' 2 Received (Some ''m1'')]\<rparr>"

text \<open>A store whose messages have no replies, and a view with the thread of \<open>m1\<close> open on it.\<close>

definition store_no_replies :: channel_state where
  "store_no_replies =
     empty_store\<lparr>state_messages := [msg ''m1'' 1 Received None, msg ''m9'' 9 Received None]\<rparr>"

definition view_thread_no_replies :: view_state where
  "view_thread_no_replies =
     initial_view\<lparr>messages := [msg ''m1'' 1 Received None, msg ''m9'' 9 Received None],
                  thread := Some (msg ''m1'' 1 Received None)\<rparr>"

definition page_foreground :: page where
  "page_foreground = \<lparr>hidden = False, title = ''Chat'', originalTitle = ''Chat'', lastRead = 0\<rparr>"

definition page_background :: page where
  "page_background = \<lparr>hidden = True, title = ''Chat'', originalTitle = ''Chat'', lastRead = 0\<rparr>"

text \<open>A new message in the main channel written by \<open>other\<close>, and the event announcing it.\<close>

definition msg_from :: "user \<Rightarrow> string option \<Rightarrow> message" where
  "msg_from u p = (msg ''n1'' 7 Received p)\<lparr>msg_user := Some u\<rparr>"

definition new_message_event :: "message \<Rightarrow> event" where
  "new_message_event m = \<lparr>ev_type = ''message.new'', ev_message = Some m\<rparr>"

definition own_message :: message where
  "own_message = (msg ''m1'' 1 Received None)\<lparr>msg_user := Some me\<rparr>"

section \<open>Pagination: guards, exceptions, the has-more flag\<close>

lemma loadMore_no_fetch:
  "loadingMore vs \<or> \<not> (\<exists>m ms. messages vs = m # ms \<and> status m = Received) \<Longrightarrow>
   loadMore be limit vs cs = \<lparr>view = vs, store = cs, trace = [], outcome = Resolved\<rparr>"
  by (cases "messages vs") (auto simp: loadMore_def)

lemma loadMoreThread_no_fetch:
  "threadLoadingMore vs \<or> thread vs = None \<Longrightarrow>
   loadMoreThread be vs cs = \<lparr>view = vs, store = cs, trace = [], outcome = Resolved\<rparr>"
  by (auto simp: loadMoreThread_def split: option.splits)

lemma loadMoreThread_fetch_trace:
  "\<not> threadLoadingMore vs \<Longrightarrow> thread vs = Some root \<Longrightarrow>
   trace (loadMoreThread be vs cs) =
     [GetReplies (msg_id root) 50 (map_option msg_id (oldest (thread_replies cs (Some (msg_id root)))))]"
  by (auto simp: loadMoreThread_def Let_def split: sum.splits)

text \<open>
  The main list absorbs a failed fetch: the in-flight flag is back to false, nothing else
  in the view or the store has changed, and the promise resolves.
\<close>

lemma loadMore_fetch_exception:
  assumes "\<not> loadingMore vs" "messages vs = m # ms" "status m = Received"
    and "query be cs (case limit of None \<Rightarrow> 100 | Some l \<Rightarrow> l) (or_null (Some (msg_id m))) = Inl e"
  shows "loadMore be limit vs cs =
    \<lparr>view = vs, store = cs,
     trace = [Query (case limit of None \<Rightarrow> 100 | Some l \<Rightarrow> l) (or_null (Some (msg_id m))), ConsoleWarn e],
     outcome = Resolved\<rparr>"
  using assms by (simp add: loadMore_def Let_def)

text \<open>
  Claim C1 asks that both pagination instances abort on a fetch exception: flag cleared,
  has-more flag and messages unchanged, nothing propagated. The main list does
  (\<open>loadMore_fetch_exception\<close>). The thread instance does not: when \<^verbatim>\<open>getReplies\<close> throws,
  \<open>loadMoreThread\<close> leaves \<open>threadLoadingMore\<close> set and its promise rejects with the
  backend's error.
\<close>

theorem loadMoreThread_fetch_exception_propagates:
  assumes "thread vs = Some root" "\<not> threadLoadingMore vs"
    and "getReplies be cs (msg_id root) 50
           (map_option msg_id (oldest (thread_replies cs (Some (msg_id root))))) = Inl e"
  shows "outcome (loadMoreThread be vs cs) = Rejected e \<and>
         threadLoadingMore (view (loadMoreThread be vs cs)) \<and>
         view (loadMoreThread be vs cs) = vs\<lparr>threadLoadingMore := True\<rparr>"
  using assms by (simp add: loadMoreThread_def Let_def)

theorem loadMoreThread_fetch_exception_propagates_witness:
  "outcome (loadMoreThread failing_backend view_thread_open empty_store)
     = Rejected (BackendError ''offline'') \<and>
   threadLoadingMore (view (loadMoreThread failing_backend view_thread_open empty_store))"
proof -
  have h1: "thread view_thread_open = Some (msg ''m1'' 1 Received None)"
    by (simp add: view_thread_open_def)
  have h2: "\<not> threadLoadingMore view_thread_open"
    by (simp add: view_thread_open_def initial_view_def)
  have h3: "getReplies failing_backend empty_store (msg_id (msg ''m1'' 1 Received None)) 50
      (map_option msg_id (oldest (thread_replies empty_store
         (Some (msg_id (msg ''m1'' 1 Received None)))))) = Inl (BackendError ''offline'')"
    by (simp add: failing_backend_def)
  from loadMoreThread_fetch_exception_propagates [OF h1 h2 h3] show ?thesis by simp
qed

text \<open>
  Claim C2, as amended. The main list fetches exactly when the flag \<open>loadingMore\<close> is
  false and the oldest message exists and is received. The thread fetches only when the
  flag \<open>threadLoadingMore\<close> is false and a thread is open; it then does fetch when no
  reply is held (with no cursor) and when the oldest reply held is received (with that
  reply's identifier as cursor). A call whose guard fails issues no request and changes
  neither the view nor the store. What the thread does when its oldest reply is not
  received is not part of this statement.
\<close>

theorem pagination_guards:
  "(fetched (loadMore be limit vs cs) \<longleftrightarrow>
      \<not> loadingMore vs \<and> (\<exists>m ms. messages vs = m # ms \<and> status m = Received)) \<and>
   (\<not> fetched (loadMore be limit vs cs) \<longrightarrow>
      loadMore be limit vs cs = \<lparr>view = vs, store = cs, trace = [], outcome = Resolved\<rparr>) \<and>
   (fetched (loadMoreThread be vs cs) \<longrightarrow> \<not> threadLoadingMore vs \<and> thread vs \<noteq> None) \<and>
   (threadLoadingMore vs \<or> thread vs = None \<longrightarrow>
      loadMoreThread be vs cs = \<lparr>view = vs, store = cs, trace = [], outcome = Resolved\<rparr>) \<and>
   (\<not> threadLoadingMore vs \<and> thread vs = Some root \<and>
    thread_replies cs (Some (msg_id root)) = [] \<longrightarrow>
      fetched (loadMoreThread be vs cs) \<and>
      trace (loadMoreThread be vs cs) = [GetReplies (msg_id root) 50 None]) \<and>
   (\<not> threadLoadingMore vs \<and> thread vs = Some root \<and>
    thread_replies cs (Some (msg_id root)) = r # rs \<and> status r = Received \<longrightarrow>
      fetched (loadMoreThread be vs cs) \<and>
      trace (loadMoreThread be vs cs) = [GetReplies (msg_id root) 50 (Some (msg_id r))])"
proof -
  have main: "fetched (loadMore be limit vs cs) \<longleftrightarrow>
      \<not> loadingMore vs \<and> (\<exists>m ms. messages vs = m # ms \<and> status m = Received)"
  proof (cases "loadingMore vs \<or> \<not> (\<exists>m ms. messages vs = m # ms \<and> status m = Received)")
    case True
    then show ?thesis using loadMore_no_fetch [of vs be limit cs] by (auto simp: fetched_def)
  next
    case False
    then show ?thesis
      by (auto simp: fetched_def loadMore_def Let_def split: sum.splits)
  qed
  have main_idle: "\<not> fetched (loadMore be limit vs cs) \<longrightarrow>
      loadMore be limit vs cs = \<lparr>view = vs, store = cs, trace = [], outcome = Resolved\<rparr>"
    using main loadMore_no_fetch [of vs be limit cs] by blast
  have thr_idle: "threadLoadingMore vs \<or> thread vs = None \<longrightarrow>
      loadMoreThread be vs cs = \<lparr>view = vs, store = cs, trace = [], outcome = Resolved\<rparr>"
    using loadMoreThread_no_fetch [of vs be cs] by (rule impI)
  have thr_only: "fetched (loadMoreThread be vs cs) \<longrightarrow> \<not> threadLoadingMore vs \<and> thread vs \<noteq> None"
  proof (cases "threadLoadingMore vs \<or> thread vs = None")
    case True
    then show ?thesis using loadMoreThread_no_fetch [of vs be cs] by (simp add: fetched_def)
  next
    case False
    then show ?thesis by simp
  qed
  have thr_empty: "\<not> threadLoadingMore vs \<and> thread vs = Some root \<and>
    thread_replies cs (Some (msg_id root)) = [] \<longrightarrow>
      fetched (loadMoreThread be vs cs) \<and>
      trace (loadMoreThread be vs cs) = [GetReplies (msg_id root) 50 None]"
    using loadMoreThread_fetch_trace [of vs root be cs] by (simp add: fetched_def)
  have thr_received: "\<not> threadLoadingMore vs \<and> thread vs = Some root \<and>
    thread_replies cs (Some (msg_id root)) = r # rs \<and> status r = Received \<longrightarrow>
      fetched (loadMoreThread be vs cs) \<and>
      trace (loadMoreThread be vs cs) = [GetReplies (msg_id root) 50 (Some (msg_id r))]"
    using loadMoreThread_fetch_trace [of vs root be cs] by (simp add: fetched_def)
  from main main_idle thr_only thr_idle thr_empty thr_received show ?thesis by (intro conjI)
qed

theorem pagination_guards_witness:
  "\<not> fetched (loadMore (paging_backend []) None view_failed_edge empty_store) \<and>
   loadMore (paging_backend []) None view_failed_edge empty_store
     = \<lparr>view = view_failed_edge, store = empty_store, trace = [], outcome = Resolved\<rparr> \<and>
   fetched (loadMore (paging_backend []) None view_received_edge empty_store) \<and>
   loadMoreThread (paging_backend []) initial_view empty_store
     = \<lparr>view = initial_view, store = empty_store, trace = [], outcome = Resolved\<rparr> \<and>
   trace (loadMoreThread (paging_backend []) view_thread_open empty_store)
     = [GetReplies ''m1'' 50 None] \<and>
   trace (loadMoreThread (paging_backend []) view_thread_m1 store_two_threads)
     = [GetReplies ''m1'' 50 (Some ''r1'')]"
proof -
  let ?m1 = "msg ''m1'' 1 Received None"
  let ?r1 = "msg ''r1'' 2 Received (Some ''m1'')"
  have f: "\<not> (\<not> loadingMore view_failed_edge \<and>
              (\<exists>m ms. messages view_failed_edge = m # ms \<and> status m = Received))"
    by (simp add: msg_def view_failed_edge_def)
  have r: "\<not> loadingMore view_received_edge \<and>
           (\<exists>m ms. messages view_received_edge = m # ms \<and> status m = Received)"
    by (simp add: msg_def initial_view_def view_received_edge_def)
  have c: "threadLoadingMore initial_view \<or> thread initial_view = None"
    by (simp add: initial_view_def)
  have e: "\<not> threadLoadingMore view_thread_open \<and> thread view_thread_open = Some ?m1 \<and>
           thread_replies empty_store (Some (msg_id ?m1)) = []"
    by (simp add: initial_view_def view_thread_open_def thread_replies_def empty_store_def)
  have t: "\<not> threadLoadingMore view_thread_m1 \<and> thread view_thread_m1 = Some ?m1 \<and>
           thread_replies store_two_threads (Some (msg_id ?m1)) = ?r1 # [] \<and> status ?r1 = Received"
    by (simp add: initial_view_def view_thread_m1_def thread_replies_def store_two_threads_def
        empty_store_def msg_def)
  have i: "msg_id ?m1 = ''m1'' \<and> msg_id ?r1 = ''r1''"
    by (simp add: msg_def)
  note g1 = pagination_guards [where be = "paging_backend []" and limit = None
      and vs = view_failed_edge and cs = empty_store]
  note g2 = pagination_guards [where be = "paging_backend []" and limit = None
      and vs = view_received_edge and cs = empty_store]
  note g3 = pagination_guards [where be = "paging_backend []" and vs = initial_view
      and cs = empty_store]
  note g4 = pagination_guards [where be = "paging_backend []" and vs = view_thread_open
      and cs = empty_store and root = ?m1]
  note g5 = pagination_guards [where be = "paging_backend []" and vs = view_thread_m1
      and cs = store_two_threads and root = ?m1 and r = ?r1 and rs = "[]"]
  have 1: "\<not> fetched (loadMore (paging_backend []) None view_failed_edge empty_store)"
    using f g1 [THEN conjunct1] by blast
  have 2: "loadMore (paging_backend []) None view_failed_edge empty_store
     = \<lparr>view = view_failed_edge, store = empty_store, trace = [], outcome = Resolved\<rparr>"
    using 1 g1 [THEN conjunct2, THEN conjunct1] by (rule rev_mp)
  have 3: "fetched (loadMore (paging_backend []) None view_received_edge empty_store)"
    using r g2 [THEN conjunct1] by blast
  have 4: "loadMoreThread (paging_backend []) initial_view empty_store
     = \<lparr>view = initial_view, store = empty_store, trace = [], outcome = Resolved\<rparr>"
    using c g3 [THEN conjunct2, THEN conjunct2, THEN conjunct2, THEN conjunct1] by (rule rev_mp)
  have 5: "trace (loadMoreThread (paging_backend []) view_thread_open empty_store)
     = [GetReplies ''m1'' 50 None]"
    using g4 [THEN conjunct2, THEN conjunct2, THEN conjunct2, THEN conjunct2, THEN conjunct1,
        THEN mp, OF e] i by simp
  have 6: "trace (loadMoreThread (paging_backend []) view_thread_m1 store_two_threads)
     = [GetReplies ''m1'' 50 (Some ''r1'')]"
    using g5 [THEN conjunct2, THEN conjunct2, THEN conjunct2, THEN conjunct2, THEN conjunct2,
        THEN mp, OF t] i by simp
  from 1 2 3 4 5 6 show ?thesis by (intro conjI)
qed

text \<open>
  Claim C2 as stated fails for the thread: it asks for a non-empty reply sequence, and
  with a thread open on \<open>m1\<close>, no fetch flagged and no reply held, \<open>loadMoreThread\<close>
  issues the request, with no cursor.
\<close>

theorem pagination_guards_counterexample:
  "\<not> threadLoadingMore view_thread_open \<and>
   threadMessages view_thread_open = [] \<and>
   thread_replies empty_store (Some ''m1'') = [] \<and>
   trace (loadMoreThread (paging_backend []) view_thread_open empty_store)
     = [GetReplies ''m1'' 50 None]"
  by (simp add: loadMoreThread_def thread_replies_def empty_store_def initial_view_def
      view_thread_open_def paging_backend_def msg_def Let_def)

text \<open>
  Claim C7. After a successful fetch the has-more flag of the main list is true exactly
  when the page has as many messages as were asked for (\<^verbatim>\<open>limit\<close>, 100 by default), and
  the flag of the thread exactly when the page has 50 replies.
\<close>

theorem hasMore_iff_full_page:
  "(\<not> loadingMore vs \<and> messages vs = m # ms \<and> status m = Received \<and>
    query be cs (case limit of None \<Rightarrow> 100 | Some l \<Rightarrow> l) (or_null (Some (msg_id m))) = Inr (pg, cs')
    \<longrightarrow> (hasMore (view (loadMore be limit vs cs)) \<longleftrightarrow>
           int (length pg) = (case limit of None \<Rightarrow> 100 | Some l \<Rightarrow> l))) \<and>
   (\<not> threadLoadingMore vs \<and> thread vs = Some root \<and>
    getReplies be cs (msg_id root) 50
      (map_option msg_id (oldest (thread_replies cs (Some (msg_id root))))) = Inr (tpg, tcs')
    \<longrightarrow> (threadHasMore (view (loadMoreThread be vs cs)) \<longleftrightarrow> length tpg = 50))"
  by (auto simp: loadMore_def loadMoreThread_def loadMoreFinished_def loadMoreThreadFinished_def
      Let_def)

theorem hasMore_iff_full_page_witness:
  "hasMore (view (loadMore (paging_backend [msg ''a'' 1 Received None, msg ''b'' 2 Received None])
                   (Some 2) view_received_edge empty_store)) \<and>
   \<not> hasMore (view (loadMore (paging_backend [msg ''a'' 1 Received None])
                   (Some 2) view_received_edge empty_store)) \<and>
   threadHasMore (view (loadMoreThread (paging_backend (replicate 50 (msg ''r'' 3 Received (Some ''m1''))))
                   view_thread_open empty_store)) \<and>
   \<not> threadHasMore (view (loadMoreThread (paging_backend (replicate 30 (msg ''r'' 3 Received (Some ''m1''))))
                   view_thread_open empty_store))"
proof -
  let ?m = "msg ''m1'' 1 Received None"
  have v: "\<not> loadingMore view_received_edge \<and> messages view_received_edge = ?m # [] \<and>
           status ?m = Received"
    by (simp add: view_received_edge_def initial_view_def msg_def)
  have t: "\<not> threadLoadingMore view_thread_open \<and> thread view_thread_open = Some ?m"
    by (simp add: view_thread_open_def initial_view_def)
  have q: "\<And>p. query (paging_backend p) empty_store (case Some 2 of None \<Rightarrow> 100 | Some l \<Rightarrow> l)
             (or_null (Some (msg_id ?m))) = Inr (p, empty_store)"
    by (simp add: paging_backend_def)
  have g: "\<And>p. getReplies (paging_backend p) empty_store (msg_id ?m) 50
             (map_option msg_id (oldest (thread_replies empty_store (Some (msg_id ?m)))))
             = Inr (p, empty_store)"
    by (simp add: paging_backend_def)
  have 1: "hasMore (view (loadMore (paging_backend [msg ''a'' 1 Received None, msg ''b'' 2 Received None])
                   (Some 2) view_received_edge empty_store))"
    using hasMore_iff_full_page [where vs = view_received_edge and m = ?m and ms = "[]"
        and limit = "Some 2" and cs = empty_store and cs' = empty_store
        and be = "paging_backend [msg ''a'' 1 Received None, msg ''b'' 2 Received None]"
        and pg = "[msg ''a'' 1 Received None, msg ''b'' 2 Received None]", THEN conjunct1] v q
    by simp
  have 2: "\<not> hasMore (view (loadMore (paging_backend [msg ''a'' 1 Received None])
                   (Some 2) view_received_edge empty_store))"
    using hasMore_iff_full_page [where vs = view_received_edge and m = ?m and ms = "[]"
        and limit = "Some 2" and cs = empty_store and cs' = empty_store
        and be = "paging_backend [msg ''a'' 1 Received None]"
        and pg = "[msg ''a'' 1 Received None]", THEN conjunct1] v q
    by simp
  have 3: "threadHasMore (view (loadMoreThread
             (paging_backend (replicate 50 (msg ''r'' 3 Received (Some ''m1''))))
             view_thread_open empty_store))"
    using hasMore_iff_full_page [where vs = view_thread_open and root = ?m
        and cs = empty_store and tcs' = empty_store
        and be = "paging_backend (replicate 50 (msg ''r'' 3 Received (Some ''m1'')))"
        and tpg = "replicate 50 (msg ''r'' 3 Received (Some ''m1''))", THEN conjunct2] t g
    by simp
  have 4: "\<not> threadHasMore (view (loadMoreThread
             (paging_backend (replicate 30 (msg ''r'' 3 Received (Some ''m1''))))
             view_thread_open empty_store))"
    using hasMore_iff_full_page [where vs = view_thread_open and root = ?m
        and cs = empty_store and tcs' = empty_store
        and be = "paging_backend (replicate 30 (msg ''r'' 3 Received (Some ''m1'')))"
        and tpg = "replicate 30 (msg ''r'' 3 Received (Some ''m1''))", THEN conjunct2] t g
    by simp
  from 1 2 3 4 show ?thesis by (intro conjI)
qed

section \<open>Thread projection: the stored root follows the main sequence\<close>

lemma scan_messages_None:
  "scan_messages ms tid n = None \<longleftrightarrow> (\<forall>i<n. msg_id (ms ! i) \<noteq> tid)"
  by (induction n) (auto simp: less_Suc_eq)

lemma scan_messages_last_match:
  "i < n \<Longrightarrow> msg_id (ms ! i) = tid \<Longrightarrow> (\<forall>j. i < j \<and> j < n \<longrightarrow> msg_id (ms ! j) \<noteq> tid) \<Longrightarrow>
   scan_messages ms tid n = Some (ms ! i)"
proof (induction n)
  case 0
  then show ?case by simp
next
  case (Suc n)
  show ?case
  proof (cases "i = n")
    case True
    with Suc.prems show ?thesis by simp
  next
    case False
    with Suc.prems have "i < n" by simp
    moreover from Suc.prems \<open>i < n\<close> have "msg_id (ms ! n) \<noteq> tid" by simp
    moreover from Suc.prems have "\<forall>j. i < j \<and> j < n \<longrightarrow> msg_id (ms ! j) \<noteq> tid" by simp
    ultimately show ?thesis using Suc.IH Suc.prems(2) by simp
  qed
qed

lemma threadEffect_closed: "thread vs = None \<Longrightarrow> threadEffect vs = vs"
  by (simp add: threadEffect_def)

text \<open>
  Claim C6. While a thread is open, the effect on the main sequence looks for the entry
  with the root's identifier, most recent first: the entry at the greatest index that
  matches replaces the stored root, and when no entry matches the view is left as it is.
\<close>

theorem threadEffect_rescans_root:
  assumes "thread vs = Some root"
  shows "(\<forall>i. i < length (messages vs) \<and> msg_id (messages vs ! i) = msg_id root \<and>
              (\<forall>j. i < j \<and> j < length (messages vs) \<longrightarrow> msg_id (messages vs ! j) \<noteq> msg_id root)
            \<longrightarrow> threadEffect vs = vs\<lparr>thread := Some (messages vs ! i)\<rparr>) \<and>
         ((\<forall>m \<in> set (messages vs). msg_id m \<noteq> msg_id root) \<longrightarrow> threadEffect vs = vs)"
proof (intro conjI allI impI)
  fix i
  assume "i < length (messages vs) \<and> msg_id (messages vs ! i) = msg_id root \<and>
          (\<forall>j. i < j \<and> j < length (messages vs) \<longrightarrow> msg_id (messages vs ! j) \<noteq> msg_id root)"
  then have "scan_messages (messages vs) (msg_id root) (length (messages vs)) = Some (messages vs ! i)"
    using scan_messages_last_match [of i "length (messages vs)" "messages vs" "msg_id root"] by simp
  with assms show "threadEffect vs = vs\<lparr>thread := Some (messages vs ! i)\<rparr>"
    by (simp add: threadEffect_def)
next
  assume "\<forall>m \<in> set (messages vs). msg_id m \<noteq> msg_id root"
  then have "scan_messages (messages vs) (msg_id root) (length (messages vs)) = None"
    by (simp add: scan_messages_None)
  with assms show "threadEffect vs = vs" by (simp add: threadEffect_def)
qed

theorem threadEffect_rescans_root_witness:
  "threadEffect view_thread_edited
     = view_thread_edited\<lparr>thread := Some ((msg ''m1'' 1 Received None)\<lparr>msg_text := ''edited''\<rparr>)\<rparr> \<and>
   threadEffect view_thread_paged_out = view_thread_paged_out"
proof -
  have h1: "thread view_thread_edited = Some (msg ''m1'' 1 Received None)"
    by (simp add: view_thread_edited_def)
  have p1: "(1::nat) < length (messages view_thread_edited) \<and>
            msg_id (messages view_thread_edited ! 1) = msg_id (msg ''m1'' 1 Received None) \<and>
            (\<forall>j. 1 < j \<and> j < length (messages view_thread_edited)
                 \<longrightarrow> msg_id (messages view_thread_edited ! j) \<noteq> msg_id (msg ''m1'' 1 Received None))"
  proof (intro conjI allI impI)
    fix j assume "1 < j \<and> j < length (messages view_thread_edited)"
    then have "j = 2" by (simp add: view_thread_edited_def)
    then show "msg_id (messages view_thread_edited ! j) \<noteq> msg_id (msg ''m1'' 1 Received None)"
      by (simp add: view_thread_edited_def msg_def)
  qed (simp_all add: view_thread_edited_def msg_def)
  have e1: "messages view_thread_edited ! 1 = (msg ''m1'' 1 Received None)\<lparr>msg_text := ''edited''\<rparr>"
    by (simp add: view_thread_edited_def)
  have h2: "thread view_thread_paged_out = Some (msg ''m1'' 1 Received None)"
    by (simp add: view_thread_paged_out_def)
  have p2: "\<forall>m \<in> set (messages view_thread_paged_out). msg_id m \<noteq> msg_id (msg ''m1'' 1 Received None)"
    by (simp add: view_thread_paged_out_def msg_def)
  have 1: "threadEffect view_thread_edited
     = view_thread_edited\<lparr>thread := Some (messages view_thread_edited ! 1)\<rparr>"
    using threadEffect_rescans_root [OF h1, THEN conjunct1, THEN spec, of 1] p1 by (rule mp)
  have 2: "threadEffect view_thread_paged_out = view_thread_paged_out"
    using threadEffect_rescans_root [OF h2, THEN conjunct2] p2 by (rule mp)
  from 1 2 e1 show ?thesis by simp
qed


section \<open>Sending: failed messages are purged, failures are absorbed\<close>

lemma set_insert_sorted: "set (insert_sorted m ms) = insert m (set ms)"
  by (induction ms) auto

lemma set_addToMessageList: "set (addToMessageList ms m) \<subseteq> insert m (set ms)"
  by (auto simp: addToMessageList_def set_insert_sorted)

lemma has_id_iff: "has_id i ms \<longleftrightarrow> i \<in> set (map msg_id ms)"
  by (auto simp: has_id_def list_ex_iff)

lemma filter_id_absent: "i \<notin> set (map msg_id ms) \<Longrightarrow> filter (\<lambda>x. msg_id x = i) ms = []"
  by (induction ms) auto

lemma filter_insert_sorted_fresh:
  "\<not> has_id (msg_id m) ms \<Longrightarrow> filter (\<lambda>x. msg_id x = msg_id m) (insert_sorted m ms) = [m]"
  by (induction ms) (auto simp: has_id_iff filter_id_absent)

lemma filter_replace_absent:
  "msg_id m \<notin> set (map msg_id ms) \<Longrightarrow>
   filter (\<lambda>x. msg_id x = msg_id m) (map (\<lambda>x. if msg_id x = msg_id m then m else x) ms) = []"
  by (induction ms) auto

lemma filter_replace_distinct:
  "has_id (msg_id m) ms \<Longrightarrow> distinct (map msg_id ms) \<Longrightarrow>
   filter (\<lambda>x. msg_id x = msg_id m) (map (\<lambda>x. if msg_id x = msg_id m then m else x) ms) = [m]"
proof (induction ms)
  case Nil
  then show ?case by (simp add: has_id_iff)
next
  case (Cons a ms)
  show ?case
  proof (cases "msg_id a = msg_id m")
    case True
    with Cons.prems have "msg_id m \<notin> set (map msg_id ms)" by (auto simp: has_id_iff)
    with True show ?thesis using filter_replace_absent [of m ms] by simp
  next
    case False
    with Cons show ?thesis by (simp add: has_id_iff)
  qed
qed

lemma addToMessageList_one:
  "distinct (map msg_id ms) \<Longrightarrow> filter (\<lambda>x. msg_id x = msg_id m) (addToMessageList ms m) = [m]"
  by (simp add: addToMessageList_def filter_insert_sorted_fresh filter_replace_distinct)

lemma map_id_replace:
  "map msg_id (map (\<lambda>x. if msg_id x = msg_id m then m else x) ms) = map msg_id ms"
  by (induction ms) auto

lemma distinct_insert_sorted:
  "\<not> has_id (msg_id m) ms \<Longrightarrow> distinct (map msg_id ms) \<Longrightarrow>
   distinct (map msg_id (insert_sorted m ms))"
  by (induction ms) (auto simp: has_id_iff set_insert_sorted)

lemma distinct_addToMessageList:
  assumes "distinct (map msg_id ms)"
  shows "distinct (map msg_id (addToMessageList ms m))"
proof (cases "has_id (msg_id m) ms")
  case True
  then have "map msg_id (addToMessageList ms m) = map msg_id ms"
    using map_id_replace [of m ms] by (simp add: addToMessageList_def)
  with assms show ?thesis by simp
next
  case False
  with assms show ?thesis by (simp add: addToMessageList_def distinct_insert_sorted)
qed

lemma state_messages_addMessageSorted:
  "state_messages (addMessageSorted cs m) = addToMessageList (state_messages cs) m"
  by (simp add: addMessageSorted_def Let_def split: option.splits)

lemma updateMessage_store: "snd (updateMessage m vs cs) = addMessageSorted cs m"
  by (simp add: updateMessage_def Let_def)

lemma updateMessage_messages:
  "messages (fst (updateMessage m vs cs)) = state_messages (addMessageSorted cs m)"
  by (simp add: updateMessage_def Let_def)

lemma distinct_filterErrorMessages:
  "distinct (map msg_id (state_messages cs)) \<Longrightarrow>
   distinct (map msg_id (state_messages (filterErrorMessages cs)))"
  by (simp add: filterErrorMessages_def distinct_map_filter)

lemma doSendMessage_throws:
  "snd (sendRequest be ch (messageData_of m)) = Inl e \<Longrightarrow>
   doSendMessage be ch m vs cs =
     \<lparr>view = fst (updateMessage (m\<lparr>status := Failed\<rparr>) vs cs),
      store = snd (updateMessage (m\<lparr>status := Failed\<rparr>) vs cs),
      trace = [fst (sendRequest be ch (messageData_of m))], outcome = Resolved\<rparr>"
  by (simp add: doSendMessage_def Let_def)

lemma doSendMessage_resolves: "outcome (doSendMessage be ch m vs cs) = Resolved"
  by (simp add: doSendMessage_def Let_def split: sum.splits option.splits)

text \<open>
  Claim C4. When the backend request of a send or of a retry throws, the handler's
  promise still resolves, and the store (copied into the view) holds exactly one message
  with the identifier of the optimistic message: that message with status failed, its
  text, attachments and mentioned users as drafted. The store is taken to hold no two
  messages with one identifier, which every store operation preserves
  (\<open>distinct_addToMessageList\<close>, \<open>distinct_filterErrorMessages\<close>).
\<close>

theorem send_failure_marks_failed:
  assumes "distinct (map msg_id (state_messages cs))"
  shows
    "(snd (sendRequest be ch (messageData_of (preview_of cl uuid now d))) = Inl e \<longrightarrow>
        outcome (sendMessage be ch cl uuid now d vs cs) = Resolved \<and>
        filter (\<lambda>x. msg_id x = msg_id (preview_of cl uuid now d))
               (state_messages (store (sendMessage be ch cl uuid now d vs cs)))
          = [(preview_of cl uuid now d)\<lparr>status := Failed\<rparr>] \<and>
        messages (view (sendMessage be ch cl uuid now d vs cs))
          = state_messages (store (sendMessage be ch cl uuid now d vs cs)) \<and>
        msg_text (preview_of cl uuid now d) = draft_text d \<and>
        attachments (preview_of cl uuid now d)
          = (case draft_attachments d of None \<Rightarrow> [] | Some a \<Rightarrow> a) \<and>
        mentioned_users (preview_of cl uuid now d)
          = (case draft_mentioned_users d of None \<Rightarrow> [] | Some u \<Rightarrow> u)) \<and>
     (snd (sendRequest be ch (messageData_of m)) = Inl e \<longrightarrow>
        outcome (retrySendMessage be ch m vs cs) = Resolved \<and>
        filter (\<lambda>x. msg_id x = msg_id m) (state_messages (store (retrySendMessage be ch m vs cs)))
          = [m\<lparr>status := Failed\<rparr>] \<and>
        messages (view (retrySendMessage be ch m vs cs))
          = state_messages (store (retrySendMessage be ch m vs cs)))"
proof (intro conjI impI)
  let ?p = "preview_of cl uuid now d"
  let ?r = "sendMessage_preview cl uuid now d vs cs"
  assume thr: "snd (sendRequest be ch (messageData_of ?p)) = Inl e"
  have d1: "distinct (map msg_id (state_messages (snd ?r)))"
    using assms
    by (simp add: sendMessage_preview_def updateMessage_store state_messages_addMessageSorted
        distinct_addToMessageList distinct_filterErrorMessages)
  have s: "sendMessage be ch cl uuid now d vs cs = doSendMessage be ch ?p (fst ?r) (snd ?r)"
    by (simp add: sendMessage_def Let_def)
  show "outcome (sendMessage be ch cl uuid now d vs cs) = Resolved"
    by (simp add: s doSendMessage_resolves)
  have one: "filter (\<lambda>x. msg_id x = msg_id (?p\<lparr>status := Failed\<rparr>))
           (addToMessageList (state_messages (snd ?r)) (?p\<lparr>status := Failed\<rparr>))
        = [?p\<lparr>status := Failed\<rparr>]"
    using d1 by (rule addToMessageList_one)
  show "filter (\<lambda>x. msg_id x = msg_id ?p)
               (state_messages (store (sendMessage be ch cl uuid now d vs cs)))
          = [?p\<lparr>status := Failed\<rparr>]"
    using one
    by (simp add: s doSendMessage_throws [OF thr] updateMessage_store state_messages_addMessageSorted)
  show "messages (view (sendMessage be ch cl uuid now d vs cs))
          = state_messages (store (sendMessage be ch cl uuid now d vs cs))"
    by (simp add: s doSendMessage_throws [OF thr] updateMessage_store updateMessage_messages)
  show "msg_text ?p = draft_text d"
    by (simp add: preview_of_def createMessagePreview_def)
  show "attachments ?p = (case draft_attachments d of None \<Rightarrow> [] | Some a \<Rightarrow> a)"
    by (simp add: preview_of_def createMessagePreview_def)
  show "mentioned_users ?p = (case draft_mentioned_users d of None \<Rightarrow> [] | Some u \<Rightarrow> u)"
    by (simp add: preview_of_def createMessagePreview_def)
next
  let ?r = "updateMessage (m\<lparr>status := Sending\<rparr>) vs cs"
  assume thr: "snd (sendRequest be ch (messageData_of m)) = Inl e"
  have d1: "distinct (map msg_id (state_messages (snd ?r)))"
    using assms
    by (simp add: updateMessage_store state_messages_addMessageSorted distinct_addToMessageList)
  have s: "retrySendMessage be ch m vs cs = doSendMessage be ch m (fst ?r) (snd ?r)"
    by (simp add: retrySendMessage_def Let_def)
  show "outcome (retrySendMessage be ch m vs cs) = Resolved"
    by (simp add: s doSendMessage_resolves)
  have one: "filter (\<lambda>x. msg_id x = msg_id (m\<lparr>status := Failed\<rparr>))
           (addToMessageList (state_messages (snd ?r)) (m\<lparr>status := Failed\<rparr>))
        = [m\<lparr>status := Failed\<rparr>]"
    using d1 by (rule addToMessageList_one)
  show "filter (\<lambda>x. msg_id x = msg_id m) (state_messages (store (retrySendMessage be ch m vs cs)))
          = [m\<lparr>status := Failed\<rparr>]"
    using one
    by (simp add: s doSendMessage_throws [OF thr] updateMessage_store state_messages_addMessageSorted)
  show "messages (view (retrySendMessage be ch m vs cs))
          = state_messages (store (retrySendMessage be ch m vs cs))"
    by (simp add: s doSendMessage_throws [OF thr] updateMessage_store updateMessage_messages)
qed


theorem send_failure_marks_failed_witness:
  "outcome (sendMessage failing_backend sample_channel sample_client ''u1'' 5 sample_draft
              view_failed_edge store_with_failed) = Resolved \<and>
   filter (\<lambda>x. msg_id x = ''me-u1'')
          (state_messages (store (sendMessage failing_backend sample_channel sample_client ''u1'' 5
              sample_draft view_failed_edge store_with_failed)))
     = [(preview_of sample_client ''u1'' 5 sample_draft)\<lparr>status := Failed\<rparr>] \<and>
   msg_text (preview_of sample_client ''u1'' 5 sample_draft) = ''hi'' \<and>
   outcome (retrySendMessage failing_backend sample_channel (msg ''m2'' 2 Failed None)
              view_failed_edge store_with_failed) = Resolved \<and>
   filter (\<lambda>x. msg_id x = ''m2'')
          (state_messages (store (retrySendMessage failing_backend sample_channel
              (msg ''m2'' 2 Failed None) view_failed_edge store_with_failed)))
     = [msg ''m2'' 2 Failed None]"
proof -
  have d: "distinct (map msg_id (state_messages store_with_failed))"
    by (simp add: store_with_failed_def msg_def)
  have t1: "snd (sendRequest failing_backend sample_channel
                   (messageData_of (preview_of sample_client ''u1'' 5 sample_draft)))
            = Inl (BackendError ''offline'')"
    by (simp add: sendRequest_def failing_backend_def)
  have t2: "snd (sendRequest failing_backend sample_channel (messageData_of (msg ''m2'' 2 Failed None)))
            = Inl (BackendError ''offline'')"
    by (simp add: sendRequest_def failing_backend_def)
  have i: "msg_id (preview_of sample_client ''u1'' 5 sample_draft) = ''me-u1''"
    by (simp add: preview_of_def createMessagePreview_def sample_client_def)
  have x: "draft_text sample_draft = ''hi''"
    by (simp add: sample_draft_def)
  have m: "msg_id (msg ''m2'' 2 Failed None) = ''m2'' \<and>
           (msg ''m2'' 2 Failed None)\<lparr>status := Failed\<rparr> = msg ''m2'' 2 Failed None"
    by (simp add: msg_def)
  note s = send_failure_marks_failed [OF d, where be = failing_backend and ch = sample_channel
      and cl = sample_client and uuid = "''u1''" and now = 5 and d = sample_draft
      and e = "BackendError ''offline''" and m = "msg ''m2'' 2 Failed None"
      and vs = view_failed_edge]
  from s [THEN conjunct1, THEN mp, OF t1] s [THEN conjunct2, THEN mp, OF t2] i x m
  show ?thesis by simp
qed

lemma list_all_addToMessageList:
  "P m \<Longrightarrow> list_all P ms \<Longrightarrow> list_all P (addToMessageList ms m)"
  using set_addToMessageList [of ms m] by (auto simp: list_all_iff)

lemma thread_replies_addMessageSorted:
  "thread_replies (addMessageSorted cs m) (Some k) =
     (if parent_id m = Some k then addToMessageList (thread_replies cs (Some k)) m
      else thread_replies cs (Some k))"
  by (simp add: addMessageSorted_def thread_replies_def Let_def split: option.splits)

lemma list_all_thread_replies_addMessageSorted:
  "P m \<Longrightarrow> list_all P (thread_replies cs (Some k)) \<Longrightarrow>
   list_all P (thread_replies (addMessageSorted cs m) (Some k))"
  by (simp add: thread_replies_addMessageSorted list_all_addToMessageList)

lemma filterErrorMessages_messages:
  "list_all (\<lambda>x. status x \<noteq> Failed) (state_messages (filterErrorMessages cs))"
  by (simp add: filterErrorMessages_def list_all_iff)

lemma filterErrorMessages_threads:
  "list_all (\<lambda>x. status x \<noteq> Failed) (thread_replies (filterErrorMessages cs) (Some k))"
  by (auto simp: filterErrorMessages_def thread_replies_def list_all_iff split: option.splits)

lemma preview_sending: "status (preview_of cl uuid now d) = Sending"
  by (simp add: preview_of_def createMessagePreview_def)

text \<open>
  Claim C3. \<open>sendMessage\<close> filters the failed messages out of the store before it adds
  the preview: when the backend request is issued, neither the main sequence, nor any
  thread, nor the messages shown hold a failed message, and a failed message found after
  the send can only be the new one.
\<close>

theorem sendMessage_discards_failed:
  "state_messages (filterErrorMessages cs) = filter (\<lambda>x. status x \<noteq> Failed) (state_messages cs) \<and>
   list_all (\<lambda>x. status x \<noteq> Failed)
     (state_messages (snd (sendMessage_preview cl uuid now d vs cs))) \<and>
   (\<forall>k. list_all (\<lambda>x. status x \<noteq> Failed)
     (thread_replies (snd (sendMessage_preview cl uuid now d vs cs)) (Some k))) \<and>
   list_all (\<lambda>x. status x \<noteq> Failed) (messages (fst (sendMessage_preview cl uuid now d vs cs))) \<and>
   sendMessage be ch cl uuid now d vs cs =
     doSendMessage be ch (preview_of cl uuid now d)
       (fst (sendMessage_preview cl uuid now d vs cs))
       (snd (sendMessage_preview cl uuid now d vs cs)) \<and>
   list_all (\<lambda>x. status x = Failed \<longrightarrow> msg_id x = msg_id (preview_of cl uuid now d))
     (state_messages (store (sendMessage be ch cl uuid now d vs cs)))"
proof (intro conjI allI)
  let ?p = "preview_of cl uuid now d"
  let ?r = "sendMessage_preview cl uuid now d vs cs"
  have p: "status ?p \<noteq> Failed" by (simp add: preview_sending)
  show "state_messages (filterErrorMessages cs) = filter (\<lambda>x. status x \<noteq> Failed) (state_messages cs)"
    by (simp add: filterErrorMessages_def)
  show m: "list_all (\<lambda>x. status x \<noteq> Failed) (state_messages (snd ?r))"
    using p filterErrorMessages_messages [of cs]
    by (simp add: sendMessage_preview_def updateMessage_store state_messages_addMessageSorted
        list_all_addToMessageList)
  show "list_all (\<lambda>x. status x \<noteq> Failed) (thread_replies (snd ?r) (Some k))" for k
    using p filterErrorMessages_threads [of cs k]
    by (simp add: sendMessage_preview_def updateMessage_store
        list_all_thread_replies_addMessageSorted)
  show "list_all (\<lambda>x. status x \<noteq> Failed) (messages (fst ?r))"
    using m by (simp add: sendMessage_preview_def updateMessage_store updateMessage_messages)
  show s: "sendMessage be ch cl uuid now d vs cs = doSendMessage be ch ?p (fst ?r) (snd ?r)"
    by (simp add: sendMessage_def Let_def)
  have w: "list_all (\<lambda>x. status x = Failed \<longrightarrow> msg_id x = msg_id ?p) (state_messages (snd ?r))"
    using m by (simp add: list_all_iff)
  have a: "list_all (\<lambda>x. status x = Failed \<longrightarrow> msg_id x = msg_id ?p)
             (state_messages (snd (updateMessage x (fst ?r) (snd ?r))))"
    if "status x = Failed \<longrightarrow> msg_id x = msg_id ?p" for x
    using that w
    by (simp add: updateMessage_store state_messages_addMessageSorted list_all_addToMessageList)
  show "list_all (\<lambda>x. status x = Failed \<longrightarrow> msg_id x = msg_id ?p)
          (state_messages (store (sendMessage be ch cl uuid now d vs cs)))"
    using w a by (simp add: s doSendMessage_def Let_def split: sum.splits option.splits)
qed

theorem sendMessage_discards_failed_witness:
  "list_ex (\<lambda>x. status x = Failed) (state_messages store_with_failed) \<and>
   list_all (\<lambda>x. status x \<noteq> Failed)
     (state_messages (snd (sendMessage_preview sample_client ''u1'' 5 sample_draft
        view_failed_edge store_with_failed))) \<and>
   list_all (\<lambda>x. status x \<noteq> Failed)
     (messages (fst (sendMessage_preview sample_client ''u1'' 5 sample_draft
        view_failed_edge store_with_failed)))"
proof -
  have f: "list_ex (\<lambda>x. status x = Failed) (state_messages store_with_failed)"
    by (simp add: store_with_failed_def msg_def)
  note s = sendMessage_discards_failed [where cl = sample_client and uuid = "''u1''" and now = 5
      and d = sample_draft and vs = view_failed_edge and cs = store_with_failed]
  from f s [THEN conjunct2, THEN conjunct1]
    s [THEN conjunct2, THEN conjunct2, THEN conjunct2, THEN conjunct1]
  show ?thesis by (intro conjI)
qed

section \<open>Editing and removing: which thread replies are shown\<close>

lemma updateMessage_threadMessages:
  "threadMessages (fst (updateMessage m vs cs)) =
     (if thread vs \<noteq> None \<and> truthy (parent_id m)
      then thread_replies (addMessageSorted cs m) (parent_id m)
      else threadMessages vs)"
  by (simp add: updateMessage_def Let_def)

text \<open>
  Claim C5 asks that an edit refresh the shown thread replies only when the edited message
  belongs to the open thread. \<open>updateMessage\<close> refreshes them whenever a thread is open and
  the message has a parent at all, and reads the replies of that parent
  (\<open>updateMessage_threadMessages\<close>): with the thread of \<open>m1\<close> open, editing the reply \<open>r9\<close>
  of \<open>m9\<close> replaces the shown replies of \<open>m1\<close> by those of \<open>m9\<close>.
\<close>

theorem updateMessage_other_thread_reply:
  "thread view_thread_m1 = Some (msg ''m1'' 1 Received None) \<and>
   threadMessages view_thread_m1 = [msg ''r1'' 2 Received (Some ''m1'')] \<and>
   parent_id ((msg ''r9'' 10 Received (Some ''m9''))\<lparr>msg_text := ''edited''\<rparr>) = Some ''m9'' \<and>
   threadMessages (fst (updateMessage ((msg ''r9'' 10 Received (Some ''m9''))\<lparr>msg_text := ''edited''\<rparr>)
                          view_thread_m1 store_two_threads))
     = [(msg ''r9'' 10 Received (Some ''m9''))\<lparr>msg_text := ''edited''\<rparr>] \<and>
   thread_replies (snd (updateMessage ((msg ''r9'' 10 Received (Some ''m9''))\<lparr>msg_text := ''edited''\<rparr>)
                          view_thread_m1 store_two_threads)) (Some ''m1'')
     = [msg ''r1'' 2 Received (Some ''m1'')]"
  by (simp add: updateMessage_def addMessageSorted_def addToMessageList_def has_id_def
      thread_replies_def view_thread_m1_def store_two_threads_def msg_def Let_def)

lemma removeMessage_threadMessages:
  "threadMessages (fst (removeMessage m vs cs))
     = thread_replies (snd (removeMessage m vs cs)) (parent_id m)"
  by (simp add: removeMessage_def Let_def)

text \<open>
  Claim C10, as amended. \<open>removeMessage\<close> re-reads the shown thread replies under the key
  \<^verbatim>\<open>message.parent_id\<close>, whatever thread is open, and leaves the open thread as it is: a
  message without a parent empties them, and a reply of the open thread leaves them equal
  to that thread's replies in the store. After any other removal they equal the open
  thread's replies exactly when the replies stored under the removed message's parent
  (none, for an absent parent) happen to be the same sequence.
\<close>

theorem removeMessage_thread_replies:
  "(parent_id m = None \<longrightarrow> threadMessages (fst (removeMessage m vs cs)) = []) \<and>
   threadMessages (fst (removeMessage m vs cs))
     = thread_replies (snd (removeMessage m vs cs)) (parent_id m) \<and>
   thread (fst (removeMessage m vs cs)) = thread vs \<and>
   (thread vs = Some root \<and> parent_id m = Some (msg_id root) \<longrightarrow>
      threadMessages (fst (removeMessage m vs cs))
        = thread_replies (snd (removeMessage m vs cs)) (Some (msg_id root))) \<and>
   (thread vs = Some root \<longrightarrow>
      (threadMessages (fst (removeMessage m vs cs))
         = thread_replies (snd (removeMessage m vs cs)) (Some (msg_id root)) \<longleftrightarrow>
       thread_replies (snd (removeMessage m vs cs)) (parent_id m)
         = thread_replies (snd (removeMessage m vs cs)) (Some (msg_id root))))"
proof -
  have 1: "parent_id m = None \<longrightarrow> threadMessages (fst (removeMessage m vs cs)) = []"
    by (simp add: removeMessage_threadMessages thread_replies_def)
  have 2: "threadMessages (fst (removeMessage m vs cs))
     = thread_replies (snd (removeMessage m vs cs)) (parent_id m)"
    by (rule removeMessage_threadMessages)
  have 3: "thread (fst (removeMessage m vs cs)) = thread vs"
    by (simp add: removeMessage_def Let_def)
  have 4: "thread vs = Some root \<and> parent_id m = Some (msg_id root) \<longrightarrow>
      threadMessages (fst (removeMessage m vs cs))
        = thread_replies (snd (removeMessage m vs cs)) (Some (msg_id root))"
    by (simp add: removeMessage_threadMessages)
  have 5: "thread vs = Some root \<longrightarrow>
      (threadMessages (fst (removeMessage m vs cs))
         = thread_replies (snd (removeMessage m vs cs)) (Some (msg_id root)) \<longleftrightarrow>
       thread_replies (snd (removeMessage m vs cs)) (parent_id m)
         = thread_replies (snd (removeMessage m vs cs)) (Some (msg_id root)))"
    by (simp add: removeMessage_threadMessages)
  from 1 2 3 4 5 show ?thesis by (intro conjI)
qed

theorem removeMessage_thread_replies_witness:
  "threadMessages (fst (removeMessage (msg ''m9'' 9 Received None) view_thread_m1 store_two_threads)) = [] \<and>
   threadMessages (fst (removeMessage (msg ''m9'' 9 Received None) initial_view store_two_threads)) = [] \<and>
   threadMessages (fst (removeMessage (msg ''r1'' 2 Received (Some ''m1'')) view_thread_m1 store_two_threads))
     = thread_replies (snd (removeMessage (msg ''r1'' 2 Received (Some ''m1'')) view_thread_m1
          store_two_threads)) (Some ''m1'') \<and>
   threadMessages (fst (removeMessage (msg ''r9'' 10 Received (Some ''m9'')) view_thread_m1 store_two_threads))
     \<noteq> thread_replies (snd (removeMessage (msg ''r9'' 10 Received (Some ''m9'')) view_thread_m1
          store_two_threads)) (Some ''m1'')"
proof -
  let ?m1 = "msg ''m1'' 1 Received None"
  let ?m9 = "msg ''m9'' 9 Received None"
  let ?r1 = "msg ''r1'' 2 Received (Some ''m1'')"
  let ?r9 = "msg ''r9'' 10 Received (Some ''m9'')"
  have p: "parent_id ?m9 = None" by (simp add: msg_def)
  have o: "thread view_thread_m1 = Some ?m1"
    by (simp add: view_thread_m1_def)
  have q: "thread view_thread_m1 = Some ?m1 \<and> parent_id ?r1 = Some (msg_id ?m1)"
    by (simp add: view_thread_m1_def msg_def)
  have i: "msg_id ?m1 = ''m1''" by (simp add: msg_def)
  have d: "thread_replies (snd (removeMessage ?r9 view_thread_m1 store_two_threads)) (parent_id ?r9)
           \<noteq> thread_replies (snd (removeMessage ?r9 view_thread_m1 store_two_threads)) (Some (msg_id ?m1))"
    by (simp add: removeMessage_def removeMessage_state_def thread_replies_def
        store_two_threads_def msg_def Let_def)
  have 1: "threadMessages (fst (removeMessage ?m9 view_thread_m1 store_two_threads)) = []"
    using p removeMessage_thread_replies [where m = ?m9 and vs = view_thread_m1
        and cs = store_two_threads, THEN conjunct1] by (rule rev_mp)
  have 2: "threadMessages (fst (removeMessage ?m9 initial_view store_two_threads)) = []"
    using p removeMessage_thread_replies [where m = ?m9 and vs = initial_view
        and cs = store_two_threads, THEN conjunct1] by (rule rev_mp)
  have 3: "threadMessages (fst (removeMessage ?r1 view_thread_m1 store_two_threads))
     = thread_replies (snd (removeMessage ?r1 view_thread_m1 store_two_threads)) (Some ''m1'')"
    using removeMessage_thread_replies [where m = ?r1 and vs = view_thread_m1
        and cs = store_two_threads and root = ?m1,
        THEN conjunct2, THEN conjunct2, THEN conjunct2, THEN conjunct1, THEN mp, OF q] i
    by simp
  have 4: "threadMessages (fst (removeMessage ?r9 view_thread_m1 store_two_threads))
     \<noteq> thread_replies (snd (removeMessage ?r9 view_thread_m1 store_two_threads)) (Some ''m1'')"
    using removeMessage_thread_replies [where m = ?r9 and vs = view_thread_m1
        and cs = store_two_threads and root = ?m1,
        THEN conjunct2, THEN conjunct2, THEN conjunct2, THEN conjunct2, THEN mp, OF o] d i
    by simp
  from 1 2 3 4 show ?thesis by (intro conjI)
qed

text \<open>
  Claim C10 as stated says that only a removal whose parent is the open thread's root
  leaves the shown replies equal to that thread's. With the thread of \<open>m1\<close> open and no
  reply of \<open>m1\<close> in the store, removing \<open>m9\<close>, which has no parent, leaves them equal too:
  both are empty.
\<close>

theorem removeMessage_thread_replies_counterexample:
  "thread view_thread_no_replies = Some (msg ''m1'' 1 Received None) \<and>
   msg_id (msg ''m1'' 1 Received None) = ''m1'' \<and>
   parent_id (msg ''m9'' 9 Received None) \<noteq> Some ''m1'' \<and>
   threadMessages (fst (removeMessage (msg ''m9'' 9 Received None) view_thread_no_replies
      store_no_replies))
     = thread_replies (snd (removeMessage (msg ''m9'' 9 Received None) view_thread_no_replies
          store_no_replies)) (Some ''m1'')"
  by (simp add: removeMessage_def removeMessage_state_def thread_replies_def
      view_thread_no_replies_def store_no_replies_def empty_store_def msg_def Let_def)

section \<open>Events: marking read and the unread badge\<close>

lemma markRead_request:
  "snd (markRead ch now pg) = (if disconnected ch \<or> \<not> read_events ch then [] else [MarkRead])"
  by (simp add: markRead_def Let_def)


lemma handleEvent_marks_read:
  assumes "ev_type e = ''message.new''" and "ev_message e = Some m"
    and "\<not> (truthy (parent_id m) \<and> \<not> show_in_channel m)" and "msg_user m = Some u"
    and "user_id u \<noteq> userID cl" and "\<not> hidden pg"
  shows "handleEvent cl countUnread messageToImmutable e vs cs pg =
    \<lparr>ev_view = refreshThread messageToImmutable e vs cs, ev_page = pg,
     ev_trace = [MarkReadThrottled, ThrottledCopyStateFromChannel], ev_outcome = Resolved\<rparr>"
  using assms by (simp add: handleEvent_def Let_def)

lemma handleEvent_badge:
  assumes "ev_type e = ''message.new''" and "ev_message e = Some m"
    and "\<not> (truthy (parent_id m) \<and> \<not> show_in_channel m)" and "msg_user m = Some u"
    and "user_id u \<noteq> userID cl" and "hidden pg"
  shows "handleEvent cl countUnread messageToImmutable e vs cs pg =
    \<lparr>ev_view = refreshThread messageToImmutable e vs cs,
     ev_page = pg\<lparr>title := ''('' @ show_nat (countUnread cs (lastRead pg)) @ '') '' @ originalTitle pg\<rparr>,
     ev_trace = [ThrottledCopyStateFromChannel], ev_outcome = Resolved\<rparr>"
  using assms by (simp add: handleEvent_def Let_def)

lemma handleEvent_own_message:
  assumes "ev_type e = ''message.new''" and "ev_message e = Some m"
    and "msg_user m = Some u" and "user_id u = userID cl"
  shows "handleEvent cl countUnread messageToImmutable e vs cs pg =
    \<lparr>ev_view = refreshThread messageToImmutable e vs cs, ev_page = pg,
     ev_trace = [ThrottledCopyStateFromChannel], ev_outcome = Resolved\<rparr>"
  using assms by (simp add: handleEvent_def Let_def)

lemma handleEvent_thread_reply:
  assumes "ev_type e = ''message.new''" and "ev_message e = Some m"
    and "truthy (parent_id m) \<and> \<not> show_in_channel m"
  shows "handleEvent cl countUnread messageToImmutable e vs cs pg =
    \<lparr>ev_view = refreshThread messageToImmutable e vs cs, ev_page = pg,
     ev_trace = [ThrottledCopyStateFromChannel], ev_outcome = Resolved\<rparr>"
  using assms by (simp add: handleEvent_def Let_def)

text \<open>
  Claim C8. On a \<^verbatim>\<open>message.new\<close> event whose message counts for the main channel and whose
  author is not the local user, a foregrounded document has the throttled mark-read routine
  invoked and its title left alone; a backgrounded one has the unread count written into
  the title as \<^verbatim>\<open>(n) title\<close> and no mark-read invoked. A message of the local user, or a
  thread reply not shown in the channel, triggers neither. The routine behind the
  throttle, \<open>markRead\<close>, issues the backend request exactly when the channel is connected
  and its configuration enables read events.
\<close>

theorem handleEvent_new_message:
  assumes "ev_type e = ''message.new''" and "ev_message e = Some m"
  shows
    "(\<not> (truthy (parent_id m) \<and> \<not> show_in_channel m) \<and> msg_user m = Some u \<and>
      user_id u \<noteq> userID cl \<and> \<not> hidden pg \<longrightarrow>
        ev_trace (handleEvent cl countUnread messageToImmutable e vs cs pg)
          = [MarkReadThrottled, ThrottledCopyStateFromChannel] \<and>
        ev_page (handleEvent cl countUnread messageToImmutable e vs cs pg) = pg \<and>
        ev_outcome (handleEvent cl countUnread messageToImmutable e vs cs pg) = Resolved) \<and>
     (\<not> (truthy (parent_id m) \<and> \<not> show_in_channel m) \<and> msg_user m = Some u \<and>
      user_id u \<noteq> userID cl \<and> hidden pg \<longrightarrow>
        ev_trace (handleEvent cl countUnread messageToImmutable e vs cs pg)
          = [ThrottledCopyStateFromChannel] \<and>
        ev_page (handleEvent cl countUnread messageToImmutable e vs cs pg)
          = pg\<lparr>title := ''('' @ show_nat (countUnread cs (lastRead pg)) @ '') '' @ originalTitle pg\<rparr> \<and>
        ev_outcome (handleEvent cl countUnread messageToImmutable e vs cs pg) = Resolved) \<and>
     ((msg_user m = Some u \<and> user_id u = userID cl) \<or>
      (truthy (parent_id m) \<and> \<not> show_in_channel m) \<longrightarrow>
        ev_trace (handleEvent cl countUnread messageToImmutable e vs cs pg)
          = [ThrottledCopyStateFromChannel] \<and>
        ev_page (handleEvent cl countUnread messageToImmutable e vs cs pg) = pg \<and>
        ev_outcome (handleEvent cl countUnread messageToImmutable e vs cs pg) = Resolved) \<and>
     (snd (markRead ch now pg) = [MarkRead] \<longleftrightarrow> \<not> disconnected ch \<and> read_events ch)"
proof -
  let ?R = "handleEvent cl countUnread messageToImmutable e vs cs pg"
  have 1: "\<not> (truthy (parent_id m) \<and> \<not> show_in_channel m) \<and> msg_user m = Some u \<and>
        user_id u \<noteq> userID cl \<and> \<not> hidden pg \<longrightarrow>
        ev_trace ?R = [MarkReadThrottled, ThrottledCopyStateFromChannel] \<and> ev_page ?R = pg \<and>
        ev_outcome ?R = Resolved"
  proof (rule impI)
    assume "\<not> (truthy (parent_id m) \<and> \<not> show_in_channel m) \<and> msg_user m = Some u \<and>
        user_id u \<noteq> userID cl \<and> \<not> hidden pg"
    then show "ev_trace ?R = [MarkReadThrottled, ThrottledCopyStateFromChannel] \<and> ev_page ?R = pg \<and>
        ev_outcome ?R = Resolved"
      using handleEvent_marks_read [OF assms, of u cl pg countUnread messageToImmutable vs cs]
      by simp
  qed
  have 2: "\<not> (truthy (parent_id m) \<and> \<not> show_in_channel m) \<and> msg_user m = Some u \<and>
        user_id u \<noteq> userID cl \<and> hidden pg \<longrightarrow>
        ev_trace ?R = [ThrottledCopyStateFromChannel] \<and>
        ev_page ?R = pg\<lparr>title := ''('' @ show_nat (countUnread cs (lastRead pg)) @ '') '' @ originalTitle pg\<rparr> \<and>
        ev_outcome ?R = Resolved"
  proof (rule impI)
    assume "\<not> (truthy (parent_id m) \<and> \<not> show_in_channel m) \<and> msg_user m = Some u \<and>
        user_id u \<noteq> userID cl \<and> hidden pg"
    then show "ev_trace ?R = [ThrottledCopyStateFromChannel] \<and>
        ev_page ?R = pg\<lparr>title := ''('' @ show_nat (countUnread cs (lastRead pg)) @ '') '' @ originalTitle pg\<rparr> \<and>
        ev_outcome ?R = Resolved"
      using handleEvent_badge [OF assms, of u cl pg countUnread messageToImmutable vs cs]
      by simp
  qed
  have 3: "(msg_user m = Some u \<and> user_id u = userID cl) \<or>
        (truthy (parent_id m) \<and> \<not> show_in_channel m) \<longrightarrow>
        ev_trace ?R = [ThrottledCopyStateFromChannel] \<and> ev_page ?R = pg \<and>
        ev_outcome ?R = Resolved"
  proof (rule impI, erule disjE)
    assume "msg_user m = Some u \<and> user_id u = userID cl"
    then show "ev_trace ?R = [ThrottledCopyStateFromChannel] \<and> ev_page ?R = pg \<and>
        ev_outcome ?R = Resolved"
      using handleEvent_own_message [OF assms, of u cl countUnread messageToImmutable vs cs pg]
      by simp
  next
    assume "truthy (parent_id m) \<and> \<not> show_in_channel m"
    then show "ev_trace ?R = [ThrottledCopyStateFromChannel] \<and> ev_page ?R = pg \<and>
        ev_outcome ?R = Resolved"
      using handleEvent_thread_reply [OF assms, of cl countUnread messageToImmutable vs cs pg]
      by simp
  qed
  have 4: "snd (markRead ch now pg) = [MarkRead] \<longleftrightarrow> \<not> disconnected ch \<and> read_events ch"
    by (simp add: markRead_request)
  from 1 2 3 4 show ?thesis by (intro conjI)
qed

theorem handleEvent_new_message_witness:
  "ev_trace (handleEvent sample_client (\<lambda>cs t. 3) (\<lambda>x. x) (new_message_event (msg_from other None))
              initial_view empty_store page_foreground)
     = [MarkReadThrottled, ThrottledCopyStateFromChannel] \<and>
   ev_page (handleEvent sample_client (\<lambda>cs t. 3) (\<lambda>x. x) (new_message_event (msg_from other None))
              initial_view empty_store page_foreground) = page_foreground \<and>
   ev_trace (handleEvent sample_client (\<lambda>cs t. 3) (\<lambda>x. x) (new_message_event (msg_from other None))
              initial_view empty_store page_background)
     = [ThrottledCopyStateFromChannel] \<and>
   title (ev_page (handleEvent sample_client (\<lambda>cs t. 3) (\<lambda>x. x)
              (new_message_event (msg_from other None)) initial_view empty_store page_background))
     = ''(3) Chat'' \<and>
   ev_trace (handleEvent sample_client (\<lambda>cs t. 3) (\<lambda>x. x) (new_message_event (msg_from me None))
              initial_view empty_store page_foreground)
     = [ThrottledCopyStateFromChannel] \<and>
   ev_trace (handleEvent sample_client (\<lambda>cs t. 3) (\<lambda>x. x)
              (new_message_event (msg_from other (Some ''m1''))) initial_view empty_store page_background)
     = [ThrottledCopyStateFromChannel] \<and>
   ev_page (handleEvent sample_client (\<lambda>cs t. 3) (\<lambda>x. x)
              (new_message_event (msg_from other (Some ''m1''))) initial_view empty_store page_background)
     = page_background \<and>
   snd (markRead sample_channel 9 page_foreground) = [MarkRead]"
proof -
  have t: "\<And>m. ev_type (new_message_event m) = ''message.new''"
    and s: "\<And>m. ev_message (new_message_event m) = Some m"
    by (simp_all add: new_message_event_def)
  have fg: "\<not> (truthy (parent_id (msg_from other None)) \<and> \<not> show_in_channel (msg_from other None)) \<and>
            msg_user (msg_from other None) = Some other \<and>
            user_id other \<noteq> userID sample_client \<and> \<not> hidden page_foreground"
    by (simp add: msg_from_def msg_def other_def sample_client_def page_foreground_def)
  have bg: "\<not> (truthy (parent_id (msg_from other None)) \<and> \<not> show_in_channel (msg_from other None)) \<and>
            msg_user (msg_from other None) = Some other \<and>
            user_id other \<noteq> userID sample_client \<and> hidden page_background"
    by (simp add: msg_from_def msg_def other_def sample_client_def page_background_def)
  have own: "(msg_user (msg_from me None) = Some me \<and> user_id me = userID sample_client) \<or>
             (truthy (parent_id (msg_from me None)) \<and> \<not> show_in_channel (msg_from me None))"
    by (simp add: msg_from_def msg_def me_def sample_client_def)
  have reply: "(msg_user (msg_from other (Some ''m1'')) = Some me \<and> user_id me = userID sample_client) \<or>
               (truthy (parent_id (msg_from other (Some ''m1''))) \<and>
                \<not> show_in_channel (msg_from other (Some ''m1'')))"
    by (simp add: msg_from_def msg_def)
  have c: "\<not> disconnected sample_channel \<and> read_events sample_channel"
    by (simp add: sample_channel_def)
  have b: "''('' @ show_nat 3 @ '') '' @ originalTitle page_background = ''(3) Chat''"
    by (simp add: page_background_def show_nat.simps)
  note h1 = handleEvent_new_message [OF t s, where u = other and cl = sample_client
      and pg = page_foreground and countUnread = "\<lambda>cs t. 3" and messageToImmutable = "\<lambda>x. x"
      and vs = initial_view and cs = empty_store and ch = sample_channel and now = 9,
      of "msg_from other None"]
  note h2 = handleEvent_new_message [OF t s, where u = other and cl = sample_client
      and pg = page_background and countUnread = "\<lambda>cs t. 3" and messageToImmutable = "\<lambda>x. x"
      and vs = initial_view and cs = empty_store, of "msg_from other None"]
  note h3 = handleEvent_new_message [OF t s, where u = me and cl = sample_client
      and pg = page_foreground and countUnread = "\<lambda>cs t. 3" and messageToImmutable = "\<lambda>x. x"
      and vs = initial_view and cs = empty_store, of "msg_from me None"]
  note h4 = handleEvent_new_message [OF t s, where u = me and cl = sample_client
      and pg = page_background and countUnread = "\<lambda>cs t. 3" and messageToImmutable = "\<lambda>x. x"
      and vs = initial_view and cs = empty_store, of "msg_from other (Some ''m1'')"]
  from h1 [THEN conjunct1, THEN mp, OF fg]
    h2 [THEN conjunct2, THEN conjunct1, THEN mp, OF bg]
    h3 [THEN conjunct2, THEN conjunct2, THEN conjunct1, THEN mp, OF own]
    h4 [THEN conjunct2, THEN conjunct2, THEN conjunct1, THEN mp, OF reply]
    h1 [THEN conjunct2, THEN conjunct2, THEN conjunct2] c b
  show ?thesis by simp
qed

section \<open>The team message status: read by me only\<close>

lemma justReadByMe_iff:
  "justReadByMe readBy clientUser \<longleftrightarrow>
     (\<exists>r u. readBy = Some [Some r] \<and> clientUser = Some u \<and> user_id r = user_id u)"
proof (cases readBy)
  case None
  then show ?thesis by (simp add: justReadByMe_def)
next
  case (Some rb)
  show ?thesis
  proof (cases clientUser)
    case None
    with Some show ?thesis by (simp add: justReadByMe_def)
  next
    case (Some cu)
    show ?thesis
    proof (cases rb)
      case Nil
      with \<open>readBy = Some rb\<close> Some show ?thesis by (simp add: justReadByMe_def)
    next
      case (Cons r0 rest)
      with \<open>readBy = Some rb\<close> Some show ?thesis
        by (cases r0) (auto simp: justReadByMe_def)
    qed
  qed
qed

lemma MessageTeamStatus_read_path:
  assumes "isMyMessage" and "map_option msg_type mo \<noteq> Some ''error''"
    and "map_option status mo \<noteq> Some Sending" and "readBy = Some rb" and "rb \<noteq> []"
    and "\<not> threadList"
  shows "MessageTeamStatus isMyMessage mo readBy threadList lastReceivedId clientUser =
    (if justReadByMe readBy clientUser then deliveredStatus mo threadList lastReceivedId
     else ReadByIndicator (lastReadUser rb clientUser)
            (if length rb - 1 > 1 then Some (length rb - 1) else None))"
  using assms by (cases mo) (simp_all add: MessageTeamStatus_def)

lemma deliveredStatus_not_read: "deliveredStatus mo threadList lastReceivedId \<noteq> ReadByIndicator a b"
  by (simp add: deliveredStatus_def split: option.splits)

lemma MessageTeamStatus_no_read_path:
  "readBy = None \<or> readBy = Some [] \<or> threadList \<Longrightarrow>
   MessageTeamStatus isMyMessage mo readBy threadList lastReceivedId clientUser
     \<noteq> ReadByIndicator a b"
  by (auto simp: MessageTeamStatus_def deliveredStatus_not_read split: option.splits)

text \<open>
  Claim C9, as amended. \<open>justReadByMe\<close> holds exactly for a read-by list with one entry
  whose identifier is the local user's. Where the component reaches the read-status check
  (own message, not an error, not sending) outside a thread list, a non-empty list takes
  the read-status indicator unless \<open>justReadByMe\<close> holds, so every non-empty list of
  another length takes it; an absent or empty list, or a thread list, never does.
\<close>

theorem justReadByMe_single_entry:
  "(justReadByMe readBy clientUser \<longleftrightarrow>
      (\<exists>r u. readBy = Some [Some r] \<and> clientUser = Some u \<and> user_id r = user_id u)) \<and>
   (isMyMessage \<and> map_option msg_type mo \<noteq> Some ''error'' \<and> map_option status mo \<noteq> Some Sending \<and>
    readBy = Some rb \<and> rb \<noteq> [] \<and> \<not> threadList \<longrightarrow>
      (if justReadByMe readBy clientUser
       then MessageTeamStatus isMyMessage mo readBy threadList lastReceivedId clientUser
              = deliveredStatus mo threadList lastReceivedId
       else MessageTeamStatus isMyMessage mo readBy threadList lastReceivedId clientUser
              = ReadByIndicator (lastReadUser rb clientUser)
                  (if length rb - 1 > 1 then Some (length rb - 1) else None))) \<and>
   (isMyMessage \<and> map_option msg_type mo \<noteq> Some ''error'' \<and> map_option status mo \<noteq> Some Sending \<and>
    readBy = Some rb \<and> rb \<noteq> [] \<and> length rb \<noteq> 1 \<and> \<not> threadList \<longrightarrow>
      MessageTeamStatus isMyMessage mo readBy threadList lastReceivedId clientUser
        = ReadByIndicator (lastReadUser rb clientUser)
            (if length rb - 1 > 1 then Some (length rb - 1) else None)) \<and>
   (readBy = None \<or> readBy = Some [] \<or> threadList \<longrightarrow>
      MessageTeamStatus isMyMessage mo readBy threadList lastReceivedId clientUser
        \<noteq> ReadByIndicator a b)"
proof -
  have 1: "justReadByMe readBy clientUser \<longleftrightarrow>
      (\<exists>r u. readBy = Some [Some r] \<and> clientUser = Some u \<and> user_id r = user_id u)"
    by (rule justReadByMe_iff)
  have 2: "isMyMessage \<and> map_option msg_type mo \<noteq> Some ''error'' \<and> map_option status mo \<noteq> Some Sending \<and>
    readBy = Some rb \<and> rb \<noteq> [] \<and> \<not> threadList \<longrightarrow>
      (if justReadByMe readBy clientUser
       then MessageTeamStatus isMyMessage mo readBy threadList lastReceivedId clientUser
              = deliveredStatus mo threadList lastReceivedId
       else MessageTeamStatus isMyMessage mo readBy threadList lastReceivedId clientUser
              = ReadByIndicator (lastReadUser rb clientUser)
                  (if length rb - 1 > 1 then Some (length rb - 1) else None))"
    using MessageTeamStatus_read_path [of isMyMessage mo readBy rb threadList lastReceivedId clientUser]
    by simp
  have 3: "isMyMessage \<and> map_option msg_type mo \<noteq> Some ''error'' \<and> map_option status mo \<noteq> Some Sending \<and>
    readBy = Some rb \<and> rb \<noteq> [] \<and> length rb \<noteq> 1 \<and> \<not> threadList \<longrightarrow>
      MessageTeamStatus isMyMessage mo readBy threadList lastReceivedId clientUser
        = ReadByIndicator (lastReadUser rb clientUser)
            (if length rb - 1 > 1 then Some (length rb - 1) else None)"
  proof (rule impI)
    assume a: "isMyMessage \<and> map_option msg_type mo \<noteq> Some ''error'' \<and>
      map_option status mo \<noteq> Some Sending \<and> readBy = Some rb \<and> rb \<noteq> [] \<and> length rb \<noteq> 1 \<and>
      \<not> threadList"
    then have "\<not> justReadByMe readBy clientUser" by (auto simp: justReadByMe_iff)
    with a show "MessageTeamStatus isMyMessage mo readBy threadList lastReceivedId clientUser
        = ReadByIndicator (lastReadUser rb clientUser)
            (if length rb - 1 > 1 then Some (length rb - 1) else None)"
      using MessageTeamStatus_read_path [of isMyMessage mo readBy rb threadList lastReceivedId clientUser]
      by simp
  qed
  have 4: "readBy = None \<or> readBy = Some [] \<or> threadList \<longrightarrow>
      MessageTeamStatus isMyMessage mo readBy threadList lastReceivedId clientUser
        \<noteq> ReadByIndicator a b"
    by (rule impI) (rule MessageTeamStatus_no_read_path)
  from 1 2 3 4 show ?thesis by (intro conjI)
qed

text \<open>
  Claim C9 as stated fails at the list lengths it does not name: with an empty read-by list
  the component shows the delivered tick, and in a thread list two readers show nothing.
\<close>

theorem justReadByMe_single_entry_counterexample:
  "\<not> justReadByMe (Some []) (Some me) \<and>
   MessageTeamStatus True (Some own_message) (Some []) False (Some ''m1'') (Some me)
     = DeliveredIndicator \<and>
   \<not> justReadByMe (Some [Some me, Some other]) (Some me) \<and>
   MessageTeamStatus True (Some own_message) (Some [Some me, Some other]) True (Some ''m1'') (Some me)
     = RenderNothing"
  by (simp add: justReadByMe_def MessageTeamStatus_def deliveredStatus_def own_message_def msg_def
      me_def other_def)

theorem justReadByMe_single_entry_witness:
  "justReadByMe (Some [Some me]) (Some me) \<and>
   \<not> justReadByMe (Some [Some other]) (Some me) \<and>
   \<not> justReadByMe (Some [Some me, Some other]) (Some me) \<and>
   MessageTeamStatus True (Some own_message) (Some [Some me]) False (Some ''m1'') (Some me)
     = DeliveredIndicator \<and>
   MessageTeamStatus True (Some own_message) (Some [Some me, Some other]) False (Some ''m1'') (Some me)
     = ReadByIndicator (Some other) None"
proof -
  have g: "True \<and> map_option msg_type (Some own_message) \<noteq> Some ''error'' \<and>
           map_option status (Some own_message) \<noteq> Some Sending"
    by (simp add: own_message_def msg_def)
  have a: "\<exists>r u. Some [Some me] = Some [Some r] \<and> Some me = Some u \<and> user_id r = user_id u"
    by simp
  have b: "\<not> (\<exists>r u. Some [Some other] = Some [Some r] \<and> Some me = Some u \<and> user_id r = user_id u)"
    by (simp add: me_def other_def)
  have c: "\<not> (\<exists>r u. Some [Some me, Some other] = Some [Some r] \<and> Some me = Some u \<and>
              user_id r = user_id u)"
    by simp
  have d: "deliveredStatus (Some own_message) False (Some ''m1'') = DeliveredIndicator"
    by (simp add: deliveredStatus_def own_message_def msg_def)
  have l: "lastReadUser [Some me, Some other] (Some me) = Some other"
    by (simp add: lastReadUser_def me_def other_def)
  note t1 = justReadByMe_single_entry [where readBy = "Some [Some me]" and clientUser = "Some me"
      and isMyMessage = True and mo = "Some own_message" and rb = "[Some me]" and threadList = False
      and lastReceivedId = "Some ''m1''"]
  note t2 = justReadByMe_single_entry [where readBy = "Some [Some other]" and clientUser = "Some me"]
  note t3 = justReadByMe_single_entry [where readBy = "Some [Some me, Some other]"
      and clientUser = "Some me" and isMyMessage = True and mo = "Some own_message"
      and rb = "[Some me, Some other]" and threadList = False and lastReceivedId = "Some ''m1''"]
  have 1: "justReadByMe (Some [Some me]) (Some me)"
    using a t1 [THEN conjunct1] by (rule rev_iffD2)
  have 2: "\<not> justReadByMe (Some [Some other]) (Some me)"
    using b t2 [THEN conjunct1] by simp
  have 3: "\<not> justReadByMe (Some [Some me, Some other]) (Some me)"
    using c t3 [THEN conjunct1] by simp
  have 4: "MessageTeamStatus True (Some own_message) (Some [Some me]) False (Some ''m1'') (Some me)
     = DeliveredIndicator"
    using t1 [THEN conjunct2, THEN conjunct1] g 1 d by simp
  have 5: "MessageTeamStatus True (Some own_message) (Some [Some me, Some other]) False (Some ''m1'')
     (Some me) = ReadByIndicator (Some other) None"
    using t3 [THEN conjunct2, THEN conjunct2] g l by simp
  from 1 2 3 4 5 show ?thesis by (intro conjI)
qed


end
